theory Spec2Isabelle
  imports Complex_Main "HOL-Library.Word"
begin

unbundle bit_operations_syntax

section \<open>Shared vocabulary\<close>

text \<open>
  The exceptions of the Python source that the model keeps apart. A function of the source
  that can raise returns \<open>py_error + 'a\<close>, with \<open>Inl\<close> for the exception.
\<close>

datatype py_error =
    ZeroDivisionError
  | ValueError
  | NameError
  | RuntimeError
  | RequestException
  | OSError
  | RecursionError
  | DatabaseError

type_synonym byte = "8 word"

section \<open>Key stream decryption (asset\_loader.py)\<close>

text \<open>
  \<^verbatim>\<open>
  def decrypt_asset_data(data:bytes, final_key:bytes):
      decrypted_data = bytearray(data)
      key_len = len(final_key)
      for i in range(256, len(decrypted_data)):
          decrypted_data[i] ^= final_key[i % key_len]
      return bytes(decrypted_data)
  \<close>
  The loop runs over the offsets \<open>256, ..., len - 1\<close> in order and updates the byte array
  in place. With an empty key the first iteration raises \<open>ZeroDivisionError\<close>; with no
  iteration (a payload of at most 256 bytes) nothing is raised.
\<close>

fun xor_loop :: "nat list \<Rightarrow> byte list \<Rightarrow> byte list \<Rightarrow> py_error + byte list" where
  "xor_loop [] final_key decrypted_data = Inr decrypted_data"
| "xor_loop (i # rest) final_key decrypted_data =
     (if length final_key = 0 then Inl ZeroDivisionError
      else xor_loop rest final_key
             (decrypted_data[i := (decrypted_data ! i) XOR (final_key ! (i mod length final_key))]))"

definition decrypt_asset_data :: "byte list \<Rightarrow> byte list \<Rightarrow> py_error + byte list" where
  "decrypt_asset_data data final_key = xor_loop [256..<length data] final_key data"

section \<open>Strings and text blocks\<close>

text \<open>
  A Python \<open>str\<close> is a sequence of Unicode code points; it is modelled as the list of
  its code points, so that the Japanese source text and the whitespace that \<open>str.strip\<close>
  removes are what the program sees. \<open>isspace\<close> lists the code points for which Python's
  \<open>str.isspace\<close> holds.
\<close>

type_synonym pystr = "nat list"

definition isspace :: "nat \<Rightarrow> bool" where
  "isspace c = (c \<in> set ([9, 10, 11, 12, 13, 28, 29, 30, 31, 32, 133, 160, 5760]
                   @ [8192..<8203] @ [8232, 8233, 8239, 8287, 12288]))"

definition strip :: "pystr \<Rightarrow> pystr" where
  "strip s = rev (dropWhile isspace (rev (dropWhile isspace s)))"

text \<open>
  The blocks are Python dictionaries with string keys. A key of the dictionary is a field
  of the record, \<open>None\<close> when the dictionary does not have the key (or holds \<open>None\<close>
  under it, as \<open>voiceIdx\<close> and the \<open>block_index\<close> of a race block may). \<open>d.get(k, "")\<close> is
  \<open>get_str\<close>, and the truth value Python gives \<open>d.get(k)\<close> (false for a missing key and
  for the empty string) is \<open>truthy_str\<close>.
\<close>

record choice =
  c_jpText :: "pystr option"
  c_enText :: "pystr option"
  c_nextBlock :: "int option"
  c_differenceFlag :: "int option"

record colored_text =
  ct_jpText :: "pystr option"
  ct_enText :: "pystr option"

record block =
  block_index :: "int option"
  path_id :: "int option"
  jpName :: "pystr option"
  enName :: "pystr option"
  jpText :: "pystr option"
  enText :: "pystr option"
  voiceIdx :: "int option"
  cueSheet :: "pystr option"
  choices :: "choice list option"
  coloredText :: "colored_text list option"
  nextBlock :: "int option"
  differenceFlag :: "int option"
  time :: "pystr option"
  motion_index :: "int option"
  text_index :: "int option"
  motion_name :: "pystr option"
  object_name :: "pystr option"

definition empty_block :: block where
  "empty_block = \<lparr> block_index = None, path_id = None, jpName = None, enName = None,
     jpText = None, enText = None, voiceIdx = None, cueSheet = None, choices = None,
     coloredText = None, nextBlock = None, differenceFlag = None, time = None,
     motion_index = None, text_index = None, motion_name = None, object_name = None \<rparr>"

definition get_str :: "pystr option \<Rightarrow> pystr" where
  "get_str v = (case v of None \<Rightarrow> [] | Some s \<Rightarrow> s)"

definition truthy_str :: "pystr option \<Rightarrow> bool" where
  "truthy_str v = (case v of None \<Rightarrow> False | Some s \<Rightarrow> s \<noteq> [])"

text \<open>The truth value of a dictionary (or of \<open>None\<close>): false when it has no key.\<close>

definition truthy_block :: "block option \<Rightarrow> bool" where
  "truthy_block v = (case v of None \<Rightarrow> False | Some b \<Rightarrow> b \<noteq> empty_block)"

text \<open>The keys of \<open>PARSER_MAP\<close>: the asset types the extractor accepts.\<close>

datatype asset_kind = Story | Race | Lyrics | Home | Preview | UIAnimation | Generic

text \<open>
  The document a walker returns, with the keys \<open>extract_asset_data\<close> adds
  (\<open>doc_type\<close> is the key \<open>"type"\<close>).
\<close>

record document =
  text_blocks :: "block list"
  title :: "pystr option"
  asset_name :: "pystr option"
  group_name :: "pystr option"
  doc_type :: "asset_kind option"
  bundle_hashes :: "(pystr \<times> pystr) option"

definition new_document :: document where
  "new_document = \<lparr> text_blocks = [], title = None, asset_name = None, group_name = None,
     doc_type = None, bundle_hashes = None \<rparr>"

section \<open>Merging with an existing translation file (extractor.py)\<close>

text \<open>
  \<open>similarity\<close> is \<open>ratio\<close> of the Levenshtein library, a parameter \<open>sim\<close> of the model;
  its value is read as a real number and compared with \<open>0.85\<close>.

  \<^verbatim>\<open>
      old_text_lookup = {block.get("jpText", "").strip(): block
                         for block in old_blocks if block.get("jpText")}
  \<close>
  A dictionary comprehension stores the blocks from left to right, a later block
  replacing an earlier one under the same key.
\<close>

fun old_text_lookup_from :: "(pystr \<rightharpoonup> block) \<Rightarrow> block list \<Rightarrow> (pystr \<rightharpoonup> block)" where
  "old_text_lookup_from m [] = m"
| "old_text_lookup_from m (b # old_blocks) =
     old_text_lookup_from
       (if truthy_str (jpText b) then m(strip (get_str (jpText b)) \<mapsto> b) else m) old_blocks"

definition old_text_lookup :: "block list \<Rightarrow> (pystr \<rightharpoonup> block)" where
  "old_text_lookup old_blocks = old_text_lookup_from Map.empty old_blocks"

text \<open>
  Python's \<open>max(xs, key=f, default=None)\<close>: \<open>None\<close> on the empty list, otherwise the first
  element whose key no later element exceeds (the running maximum is replaced only by a
  strictly larger key).
\<close>

fun max_by :: "('a \<Rightarrow> real) \<Rightarrow> 'a list \<Rightarrow> 'a option" where
  "max_by key [] = None"
| "max_by key (x # xs) = Some (foldl (\<lambda>best y. if key best < key y then y else best) x xs)"

text \<open>
  \<^verbatim>\<open>
                for i, new_choice in enumerate(new_block["choices"]):
                    if i < len(best_match["choices"]):
                        new_choice["enText"] = best_match["choices"][i].get("enText", "")
  \<close>
\<close>

definition copy_choices :: "choice list \<Rightarrow> choice list \<Rightarrow> choice list" where
  "copy_choices new_choices best_choices =
     map (\<lambda>(i, new_choice).
            if i < length best_choices
            then new_choice\<lparr>c_enText := Some (get_str (c_enText (best_choices ! i)))\<rparr>
            else new_choice)
         (enumerate 0 new_choices)"

text \<open>
  \<^verbatim>\<open>
            new_block["enText"] = best_match.get("enText", "")
            if "enName" in best_match:
                new_block["enName"] = best_match.get("enName", "")
            if "choices" in new_block and "choices" in best_match:
                ...
  \<close>
\<close>

definition apply_match :: "block \<Rightarrow> block \<Rightarrow> block" where
  "apply_match best_match new_block =
     (let b1 = new_block\<lparr>enText := Some (get_str (enText best_match))\<rparr>;
          b2 = (if enName best_match \<noteq> None
                then b1\<lparr>enName := Some (get_str (enName best_match))\<rparr> else b1)
      in case choices b2 of
           None \<Rightarrow> b2
         | Some new_choices \<Rightarrow>
             (case choices best_match of
                None \<Rightarrow> b2
              | Some best_choices \<Rightarrow> b2\<lparr>choices := Some (copy_choices new_choices best_choices)\<rparr>))"

text \<open>
  The body of \<open>for new_block in new_blocks\<close>. The old blocks are read only, so each new
  block is treated on its own.
  \<^verbatim>\<open>
        jp_text = new_block.get("jpText")
        if not jp_text: continue
        best_match = old_text_lookup.get(jp_text.strip())
        if not best_match:
            best_match = max(old_blocks,
                key=lambda old_block: similarity(jp_text, old_block.get("jpText", "")),
                default=None)
        if best_match and similarity(jp_text, best_match.get("jpText", "")) > 0.85:
            ...
  \<close>
\<close>

definition merge_block ::
  "(pystr \<Rightarrow> pystr \<Rightarrow> real) \<Rightarrow> block list \<Rightarrow> (pystr \<rightharpoonup> block) \<Rightarrow> block \<Rightarrow> block" where
  "merge_block sim old_blocks lookup new_block =
     (if \<not> truthy_str (jpText new_block) then new_block
      else
        let jp_text = get_str (jpText new_block);
            found = lookup (strip jp_text);
            best_match = (if \<not> truthy_block found
                          then max_by (\<lambda>old_block. sim jp_text (get_str (jpText old_block))) old_blocks
                          else found)
        in case best_match of
             None \<Rightarrow> new_block
           | Some bm \<Rightarrow>
               if truthy_block (Some bm) \<and> 85 / 100 < sim jp_text (get_str (jpText bm))
               then apply_match bm new_block
               else new_block)"

text \<open>
  The existing translation file: no path given or no file at the path (\<open>None\<close>), a file
  that \<open>json.load\<close> rejects (it raises a \<open>ValueError\<close>), or a document.
\<close>

datatype json_file = NotJson | Json document

definition merge_translations ::
  "(pystr \<Rightarrow> pystr \<Rightarrow> real) \<Rightarrow> document \<Rightarrow> json_file option \<Rightarrow> py_error + document" where
  "merge_translations sim new_data existing_tl =
     (case existing_tl of
        None \<Rightarrow> Inr new_data
      | Some NotJson \<Rightarrow> Inl ValueError
      | Some (Json old_data) \<Rightarrow>
          (let old_blocks = text_blocks old_data;
               lookup = old_text_lookup old_blocks
           in Inr (new_data\<lparr>text_blocks :=
                     map (merge_block sim old_blocks lookup) (text_blocks new_data)\<rparr>)))"

text \<open>
  The library's \<open>ratio\<close> itself, for evaluating the model on concrete texts: the
  normalised insertion-deletion similarity \<open>2 * lcs a b / (len a + len b)\<close>, and \<open>1\<close> for
  two empty strings.
\<close>

fun lcs :: "'a list \<Rightarrow> 'a list \<Rightarrow> nat" where
  "lcs [] ys = 0"
| "lcs (x # xs) [] = 0"
| "lcs (x # xs) (y # ys) =
     (if x = y then Suc (lcs xs ys) else max (lcs xs (y # ys)) (lcs (x # xs) ys))"

definition ratio :: "pystr \<Rightarrow> pystr \<Rightarrow> real" where
  "ratio a b = (if length a + length b = 0 then 1
                else real (2 * lcs a b) / real (length a + length b))"

section \<open>The merge as the specification words it\<close>

text \<open>
  The candidate of a new block, following the specification: the existing blocks whose
  trimmed source text is that of the new block (the exact matches; where several exist,
  the last one, which the index holds); if there is none, the first existing block whose
  similarity to the new source text no other existing block exceeds.
\<close>

definition exact_matches :: "block list \<Rightarrow> pystr \<Rightarrow> block list" where
  "exact_matches old_blocks jp_text =
     filter (\<lambda>ob. truthy_str (jpText ob) \<and> strip (get_str (jpText ob)) = strip jp_text) old_blocks"

definition most_similar :: "(pystr \<Rightarrow> pystr \<Rightarrow> real) \<Rightarrow> pystr \<Rightarrow> block list \<Rightarrow> block option" where
  "most_similar sim jp_text old_blocks =
     find (\<lambda>c. \<forall>ob\<in>set old_blocks.
                 sim jp_text (get_str (jpText ob)) \<le> sim jp_text (get_str (jpText c)))
          old_blocks"

text \<open>
  What is copied from an accepted candidate: its translated text, its translated speaker
  name when it has one, and its translated choice texts, position by position, up to the
  shorter of the two choice lists. Every other field of the new block stays.
\<close>

definition copy_translation :: "block \<Rightarrow> block \<Rightarrow> block" where
  "copy_translation cand new_block =
     new_block\<lparr>
       enText := Some (get_str (enText cand)),
       enName := (case enName cand of None \<Rightarrow> enName new_block | Some n \<Rightarrow> Some n),
       choices :=
         (case choices new_block of
            None \<Rightarrow> None
          | Some ncs \<Rightarrow>
              (case choices cand of
                 None \<Rightarrow> Some ncs
               | Some ocs \<Rightarrow>
                   Some (map2 (\<lambda>nc oc. nc\<lparr>c_enText := Some (get_str (c_enText oc))\<rparr>) ncs ocs
                         @ drop (length ocs) ncs)))\<rparr>"

definition spec_merge_block ::
  "(pystr \<Rightarrow> pystr \<Rightarrow> real) \<Rightarrow> block list \<Rightarrow> block \<Rightarrow> block" where
  "spec_merge_block sim old_blocks new_block =
     (if \<not> truthy_str (jpText new_block) then new_block
      else
        let jp_text = get_str (jpText new_block);
            cand = (case exact_matches old_blocks jp_text of
                      [] \<Rightarrow> most_similar sim jp_text old_blocks
                    | ms \<Rightarrow> Some (last ms))
        in case cand of
             None \<Rightarrow> new_block
           | Some c \<Rightarrow>
               if 85 / 100 < sim jp_text (get_str (jpText c))
               then copy_translation c new_block
               else new_block)"



text \<open>
  Example documents. \<open>hello_old\<close> holds one translated line, \<open>hello_new\<close> the same line
  with an exclamation mark added (similarity \<open>10/11\<close>); \<open>ellipsis_doc\<close> holds the same
  source line twice, translated differently.
\<close>

definition hello_old :: document where
  "hello_old = \<lparr> text_blocks =
       [empty_block\<lparr>block_index := Some 0, jpText := Some [12371, 12435, 12395, 12385, 12399],
                    enText := Some [72, 101, 108, 108, 111]\<rparr>],
     title = None, asset_name = None, group_name = None, doc_type = None, bundle_hashes = None \<rparr>"

definition hello_new :: document where
  "hello_new = \<lparr> text_blocks =
       [empty_block\<lparr>block_index := Some 0,
                    jpText := Some [12371, 12435, 12395, 12385, 12399, 65281],
                    enText := Some []\<rparr>],
     title = None, asset_name = None, group_name = None, doc_type = None, bundle_hashes = None \<rparr>"


section \<open>The decoded bundle (asset\_loader.py)\<close>

text \<open>
  A loaded bundle is the list \<open>env.objects\<close>. An object has a path id, a type name and
  a type tree, which \<open>read_typetree\<close> returns or fails to return. The type trees are
  kept apart by the marker key the walkers look for; the fields are the keys the walkers
  read, \<open>None\<close> for a key the tree does not have (or whose value is null).
\<close>

datatype type_name = MonoBehaviour | TextAsset | OtherType

text \<open>
  One entry of \<open>BlockList\<close>, as far as the walkers look at it: the entry is not a
  dictionary with a non-empty \<open>TextTrack.ClipList\<close> (\<open>NoClip\<close>), the first clip gives no
  path id (\<open>ClipNoPathId\<close>), or it gives one.
\<close>

datatype clip_ref = NoClip | ClipNoPathId | ClipPathId int

record choice_data =
  cd_Text :: "pystr option"
  cd_NextBlock :: "int option"
  cd_DifferenceFlag :: "int option"

record color_info =
  ci_Text :: "pystr option"

text \<open>
  The type tree of a text clip. \<open>ChoiceDataList\<close> and \<open>ColorTextInfoList\<close> hold the entries
  that are dictionaries (the walkers pass over the others).
\<close>

record text_clip =
  tc_Name :: pystr
  tc_Text :: "pystr option"
  tc_CueId :: "int option"
  tc_VoiceSheetId :: "pystr option"
  tc_DifferenceFlag :: "int option"
  tc_NextBlock :: "int option"
  tc_ChoiceDataList :: "choice_data list"
  tc_ColorTextInfoList :: "color_info list"

record timeline_asset =
  tl_Title :: "pystr option"
  tl_BlockList :: "clip_ref list"

text \<open>An entry of \<open>textData\<close> that is a dictionary; \<open>rt_text\<close> is \<open>None\<close> without the key \<open>text\<close>.\<close>

record race_item =
  rt_key :: "int option"
  rt_text :: "pystr option"

record preview_item =
  pv_Name :: "pystr option"
  pv_Text :: "pystr option"

text \<open>
  A motion parameter: its id, its name, its text parameters, and the \<open>_childMotionID\<close> of
  each entry of \<open>_objectParamList\<close> and of \<open>_planeParamList\<close>.
\<close>

record text_param =
  tp_text :: "pystr option"
  tp_objectName :: "pystr option"

record motion =
  mo_id :: "int option"
  mo_name :: "pystr option"
  mo_textParamList :: "text_param list"
  mo_objectParamList :: "int option list"
  mo_planeParamList :: "int option list"

record main_mono =
  mm_motionParameterList :: "motion list"
  mm_rootMotionID :: "int option"

text \<open>
  \<open>Script\<close> is a text asset's \<open>m_Script\<close>, line by line, each line as the fields the CSV
  reader gives for it (no line for a missing or empty script). \<open>OtherTree\<close> is a dictionary
  of another kind, \<open>NotADict\<close> a type tree that is no dictionary.
\<close>

datatype typetree =
    Timeline timeline_asset
  | Clip text_clip
  | RaceText "race_item list"
  | Script "pystr list list"
  | PreviewData "preview_item list"
  | MotionGroup main_mono
  | OtherTree
  | NotADict

text \<open>
  What a timeline walker reads from the type tree a clip reference leads to: the keys of
  the text clip. A dictionary of another kind has none of these keys, and the walker
  goes on with the defaults of \<open>.get\<close>; a tree that is no dictionary is passed over.
\<close>

definition clip_view :: "typetree \<Rightarrow> text_clip option" where
  "clip_view tree =
     (case tree of
        Clip text_clip_data \<Rightarrow> Some text_clip_data
      | NotADict \<Rightarrow> None
      | _ \<Rightarrow> Some \<lparr> tc_Name = [], tc_Text = None, tc_CueId = None, tc_VoiceSheetId = None,
                      tc_DifferenceFlag = None, tc_NextBlock = None,
                      tc_ChoiceDataList = [], tc_ColorTextInfoList = [] \<rparr>)"

record uobject =
  obj_path_id :: int
  obj_type :: type_name
  obj_tree :: "py_error + typetree"

section \<open>The timeline walkers\<close>

text \<open>
  \<open>str.isdigit\<close> and \<open>int\<close> on the ASCII digits, which the character ids of the game data
  are written in.
\<close>

definition isdigit :: "pystr \<Rightarrow> bool" where
  "isdigit s = (s \<noteq> [] \<and> (\<forall>c\<in>set s. 48 \<le> c \<and> c \<le> 57))"

definition int_of_digits :: "pystr \<Rightarrow> int" where
  "int_of_digits s = foldl (\<lambda>acc c. 10 * acc + int (c - 48)) 0 s"

text \<open>\<open>a or b\<close> on an optional string.\<close>

definition or_str :: "pystr option \<Rightarrow> pystr \<Rightarrow> pystr" where
  "or_str a b = (if truthy_str a then get_str a else b)"

text \<open>
  \<^verbatim>\<open>
    for obj in env.objects:
        if obj.type.name == "MonoBehaviour":
            try:
                tree = obj.read_typetree()
                if isinstance(tree, dict) and 'BlockList' in tree:
                    timeline_data_asset = tree
                    break
            except Exception:
                continue
  \<close>
\<close>

fun find_timeline :: "uobject list \<Rightarrow> timeline_asset option" where
  "find_timeline [] = None"
| "find_timeline (obj # objects) =
     (if obj_type obj = MonoBehaviour
      then (case obj_tree obj of
              Inr (Timeline tree) \<Rightarrow> Some tree
            | _ \<Rightarrow> find_timeline objects)
      else find_timeline objects)"

text \<open>
  \<open>objects_by_path_id = {obj.path_id: obj for obj in env.objects ...}\<close>: the last object
  with a path id is the one the dictionary keeps.
\<close>

fun objects_by_path_id_from :: "(int \<rightharpoonup> uobject) \<Rightarrow> uobject list \<Rightarrow> (int \<rightharpoonup> uobject)" where
  "objects_by_path_id_from m [] = m"
| "objects_by_path_id_from m (obj # objects) =
     objects_by_path_id_from (m(obj_path_id obj \<mapsto> obj)) objects"

definition objects_by_path_id :: "uobject list \<Rightarrow> (int \<rightharpoonup> uobject)" where
  "objects_by_path_id objects = objects_by_path_id_from Map.empty objects"

text \<open>
  The cue id arithmetic of the story walker, lines 122 to 135: the pair of
  \<open>final_cue_id\<close> and the new \<open>global_cue_offset\<close>.
  \<^verbatim>\<open>
            original_cue_id = text_clip_data.get("CueId")
            final_cue_id = original_cue_id
            difference_flag = text_clip_data.get("DifferenceFlag", 0)
            local_cue_offset = 0
            if difference_flag == 2:
                local_cue_offset = 1
            if original_cue_id is not None and original_cue_id != -1:
                final_cue_id = original_cue_id + local_cue_offset + global_cue_offset
            if difference_flag == 4 and original_cue_id is not None and original_cue_id != -1:
                global_cue_offset += 1
  \<close>
\<close>

definition get_int :: "int option \<Rightarrow> int \<Rightarrow> int" where
  "get_int v d = (case v of None \<Rightarrow> d | Some i \<Rightarrow> i)"

definition cue_offsets :: "text_clip \<Rightarrow> int \<Rightarrow> int option \<times> int" where
  "cue_offsets text_clip_data global_cue_offset =
     (let original_cue_id = tc_CueId text_clip_data;
          difference_flag = get_int (tc_DifferenceFlag text_clip_data) 0;
          local_cue_offset = (if difference_flag = 2 then 1 else 0);
          final_cue_id =
            (case original_cue_id of
               None \<Rightarrow> None
             | Some c \<Rightarrow> if c \<noteq> - 1 then Some (c + local_cue_offset + global_cue_offset)
                         else Some c);
          global_cue_offset' =
            (if difference_flag = 4 \<and> original_cue_id \<noteq> None \<and> original_cue_id \<noteq> Some (- 1)
             then global_cue_offset + 1 else global_cue_offset)
      in (final_cue_id, global_cue_offset'))"

text \<open>
  The dictionary \<open>block_data\<close> of the story walker. \<open>final_cue_id\<close> does not occur in it:
  \<open>"voiceIdx": text_clip_data.get("CueId")\<close>.
\<close>

definition story_block_data ::
  "(int \<rightharpoonup> pystr) \<Rightarrow> int \<Rightarrow> int \<Rightarrow> text_clip \<Rightarrow> block" where
  "story_block_data char_names block_idx pid text_clip_data =
     (let jp_name = tc_Name text_clip_data;
          looked_up_name = (if isdigit jp_name then char_names (int_of_digits jp_name)
                            else Some jp_name)
      in empty_block\<lparr>
           block_index := Some (block_idx - 1),
           path_id := Some pid,
           jpName := Some (or_str looked_up_name jp_name),
           enName := Some [],
           jpText := Some (get_str (tc_Text text_clip_data)),
           enText := Some [],
           voiceIdx := tc_CueId text_clip_data,
           cueSheet := tc_VoiceSheetId text_clip_data,
           choices := Some (map (\<lambda>choice.
               \<lparr> c_jpText = Some (get_str (cd_Text choice)), c_enText = Some [],
                 c_nextBlock = Some (get_int (cd_NextBlock choice) 0),
                 c_differenceFlag = Some (get_int (cd_DifferenceFlag choice) 0) \<rparr>)
             (tc_ChoiceDataList text_clip_data)),
           coloredText := Some (map (\<lambda>color_info.
               \<lparr> ct_jpText = Some (get_str (ci_Text color_info)), ct_enText = Some [] \<rparr>)
             (tc_ColorTextInfoList text_clip_data)),
           nextBlock := Some (get_int (tc_NextBlock text_clip_data) 0),
           differenceFlag := Some (get_int (tc_DifferenceFlag text_clip_data) 0)\<rparr>)"

text \<open>
  One turn of the loop over \<open>enumerate(block_list[1:], start=1)\<close>: \<open>None\<close> when the entry is
  skipped (one of the \<open>continue\<close> statements, or the exception handler of the turn),
  otherwise the emitted block with the new \<open>global_cue_offset\<close>.
\<close>

definition story_turn ::
  "(int \<rightharpoonup> uobject) \<Rightarrow> (int \<rightharpoonup> pystr) \<Rightarrow> int \<Rightarrow> int \<Rightarrow> clip_ref \<Rightarrow> (block \<times> int) option" where
  "story_turn by_path_id char_names block_idx global_cue_offset entry =
     (case entry of
        NoClip \<Rightarrow> None
      | ClipNoPathId \<Rightarrow> None
      | ClipPathId pid \<Rightarrow>
          (case by_path_id pid of
             None \<Rightarrow> None
           | Some text_clip_obj \<Rightarrow>
               (case obj_tree text_clip_obj of
                  Inl e \<Rightarrow> None
                | Inr tree \<Rightarrow>
                    (case clip_view tree of
                       None \<Rightarrow> None
                     | Some text_clip_data \<Rightarrow>
                         Some (story_block_data char_names block_idx pid text_clip_data,
                               snd (cue_offsets text_clip_data global_cue_offset))))))"

fun story_loop ::
  "(int \<rightharpoonup> uobject) \<Rightarrow> (int \<rightharpoonup> pystr) \<Rightarrow> int \<Rightarrow> int \<Rightarrow> clip_ref list \<Rightarrow> block list" where
  "story_loop by_path_id char_names block_idx global_cue_offset [] = []"
| "story_loop by_path_id char_names block_idx global_cue_offset (entry # rest) =
     (case story_turn by_path_id char_names block_idx global_cue_offset entry of
        None \<Rightarrow> story_loop by_path_id char_names (block_idx + 1) global_cue_offset rest
      | Some (block_data, global_cue_offset') \<Rightarrow>
          block_data # story_loop by_path_id char_names (block_idx + 1) global_cue_offset' rest)"

definition parse_story_timeline :: "uobject list \<Rightarrow> (int \<rightharpoonup> pystr) \<Rightarrow> document option" where
  "parse_story_timeline objects char_names =
     (case find_timeline objects of
        None \<Rightarrow> None
      | Some timeline_data_asset \<Rightarrow>
          Some (new_document\<lparr>
            title := (if truthy_str (tl_Title timeline_data_asset)
                           \<and> tl_Title timeline_data_asset \<noteq> Some [48]
                      then tl_Title timeline_data_asset else None),
            text_blocks := story_loop (objects_by_path_id objects) char_names 1 0
                             (drop 1 (tl_BlockList timeline_data_asset))\<rparr>))"

text \<open>
  The home walker: the loop starts at the first entry, the clip object is the first
  object with the path id, a clip without text is passed over, and a walk without blocks
  returns \<open>None\<close>.
\<close>

definition home_block_data :: "(int \<rightharpoonup> pystr) \<Rightarrow> nat \<Rightarrow> text_clip \<Rightarrow> block" where
  "home_block_data char_names block_idx text_clip_data =
     (let jp_name = tc_Name text_clip_data;
          looked_up_name = (if isdigit jp_name then char_names (int_of_digits jp_name) else None)
      in empty_block\<lparr>
           block_index := Some (int block_idx),
           jpName := Some (or_str looked_up_name jp_name),
           jpText := Some (get_str (tc_Text text_clip_data)),
           enText := Some [],
           choices := Some (map (\<lambda>choice.
               \<lparr> c_jpText = Some (get_str (cd_Text choice)), c_enText = Some [],
                 c_nextBlock = Some (get_int (cd_NextBlock choice) 0),
                 c_differenceFlag = None \<rparr>)
             (tc_ChoiceDataList text_clip_data)),
           voiceIdx := tc_CueId text_clip_data\<rparr>)"

definition home_turn :: "uobject list \<Rightarrow> (int \<rightharpoonup> pystr) \<Rightarrow> nat \<times> clip_ref \<Rightarrow> block option" where
  "home_turn objects char_names = (\<lambda>(block_idx, entry).
     (case entry of
        NoClip \<Rightarrow> None
      | ClipNoPathId \<Rightarrow> None
      | ClipPathId pid \<Rightarrow>
          (case find (\<lambda>obj. obj_path_id obj = pid) objects of
             None \<Rightarrow> None
           | Some text_clip_obj \<Rightarrow>
               (case obj_tree text_clip_obj of
                  Inl e \<Rightarrow> None
                | Inr tree \<Rightarrow>
                    (case clip_view tree of
                       None \<Rightarrow> None
                     | Some text_clip_data \<Rightarrow>
                         if \<not> truthy_str (tc_Text text_clip_data) then None
                         else Some (home_block_data char_names block_idx text_clip_data))))))"

definition parse_home_timeline :: "uobject list \<Rightarrow> (int \<rightharpoonup> pystr) \<Rightarrow> document option" where
  "parse_home_timeline objects char_names =
     (case find_timeline objects of
        None \<Rightarrow> None
      | Some timeline_data_asset \<Rightarrow>
          (let blocks = List.map_filter (home_turn objects char_names)
                          (enumerate 0 (tl_BlockList timeline_data_asset))
           in if blocks = [] then None else Some (new_document\<lparr>text_blocks := blocks\<rparr>)))"

section \<open>The race, lyrics, preview and generic walkers\<close>

text \<open>
  \<^verbatim>\<open>
                if "textData" in tree:
                    extracted_data = {"text_blocks": []}
                    for item in tree["textData"]:
                        if isinstance(item, dict) and "text" in item:
                            extracted_data["text_blocks"].append({
                                "block_index": item.get("key"),
                                "jpText": item.get("text"),
                                "enText": ""
                            })
                    return extracted_data
  \<close>
\<close>

definition race_blocks :: "race_item list \<Rightarrow> block list" where
  "race_blocks items =
     List.map_filter (\<lambda>item.
        case rt_text item of
          None \<Rightarrow> None
        | Some t \<Rightarrow> Some (empty_block\<lparr>block_index := rt_key item, jpText := Some t,
                                       enText := Some []\<rparr>)) items"

fun parse_race_story :: "uobject list \<Rightarrow> document option" where
  "parse_race_story [] = None"
| "parse_race_story (obj # objects) =
     (if obj_type obj = MonoBehaviour
      then (case obj_tree obj of
              Inr (RaceText items) \<Rightarrow> Some (new_document\<lparr>text_blocks := race_blocks items\<rparr>)
            | _ \<Rightarrow> parse_race_story objects)
      else parse_race_story objects)"

text \<open>
  The rows of the lyrics script after its two header lines. A row that is empty or whose
  first field is empty is passed over; \<open>time, text, *_ = row\<close> raises \<open>ValueError\<close> on a
  row of one field, which ends the work on this text asset.
\<close>

fun lyrics_rows :: "pystr list list \<Rightarrow> py_error + block list" where
  "lyrics_rows [] = Inr []"
| "lyrics_rows (row # rows) =
     (case row of
        [] \<Rightarrow> lyrics_rows rows
      | t # cols \<Rightarrow>
          if t = [] then lyrics_rows rows
          else (case cols of
                  [] \<Rightarrow> Inl ValueError
                | text # _ \<Rightarrow>
                    (case lyrics_rows rows of
                       Inl e \<Rightarrow> Inl e
                     | Inr blocks \<Rightarrow>
                         Inr (empty_block\<lparr>time := Some t, jpText := Some (strip text),
                                          enText := Some []\<rparr> # blocks))))"

fun parse_lyrics :: "uobject list \<Rightarrow> document option" where
  "parse_lyrics [] = None"
| "parse_lyrics (obj # objects) =
     (if obj_type obj = TextAsset
      then (case obj_tree obj of
              Inr (Script script_lines) \<Rightarrow>
                (case lyrics_rows (drop 2 script_lines) of
                   Inr blocks \<Rightarrow>
                     if blocks \<noteq> [] then Some (new_document\<lparr>text_blocks := blocks\<rparr>)
                     else parse_lyrics objects
                 | Inl e \<Rightarrow> parse_lyrics objects)
            | _ \<Rightarrow> parse_lyrics objects)
      else parse_lyrics objects)"

definition preview_turn :: "nat \<times> preview_item \<Rightarrow> block option" where
  "preview_turn = (\<lambda>(i, item).
     if truthy_str (pv_Text item)
     then Some (empty_block\<lparr>block_index := Some (int i), jpName := Some (get_str (pv_Name item)),
                            enName := Some [], jpText := Some (get_str (pv_Text item)),
                            enText := Some []\<rparr>)
     else None)"

fun parse_preview :: "uobject list \<Rightarrow> document option" where
  "parse_preview [] = None"
| "parse_preview (obj # objects) =
     (if obj_type obj = MonoBehaviour
      then (case obj_tree obj of
              Inr (PreviewData data_array) \<Rightarrow>
                (let blocks = List.map_filter preview_turn (enumerate 0 data_array)
                 in if blocks = [] then None else Some (new_document\<lparr>text_blocks := blocks\<rparr>))
            | _ \<Rightarrow> parse_preview objects)
      else parse_preview objects)"

definition parse_generic :: "uobject list \<Rightarrow> document option" where
  "parse_generic objects = (if objects = [] then None else Some new_document)"

section \<open>The UI animation walker\<close>

text \<open>
  \<open>if not motion_id\<close>: an id is false when it is missing or \<open>0\<close>.
\<close>

definition falsy_id :: "int option \<Rightarrow> bool" where
  "falsy_id motion_id = (motion_id = None \<or> motion_id = Some 0)"

text \<open>
  \<open>motion_map\<close> and \<open>motion_index_map\<close> are dictionary comprehensions over the motion list:
  of two motions with the same id the later one, and its position, are kept. The keys of
  a dictionary are iterated in the order of their first insertion.
\<close>

fun motion_map_from :: "(int option \<rightharpoonup> motion) \<Rightarrow> motion list \<Rightarrow> (int option \<rightharpoonup> motion)" where
  "motion_map_from m [] = m"
| "motion_map_from m (mo # motion_param_list) =
     motion_map_from (m(mo_id mo \<mapsto> mo)) motion_param_list"

definition motion_map :: "motion list \<Rightarrow> (int option \<rightharpoonup> motion)" where
  "motion_map motion_param_list = motion_map_from Map.empty motion_param_list"

fun motion_index_map_from ::
  "(int option \<rightharpoonup> nat) \<Rightarrow> (nat \<times> motion) list \<Rightarrow> (int option \<rightharpoonup> nat)" where
  "motion_index_map_from m [] = m"
| "motion_index_map_from m ((i, mo) # rest) = motion_index_map_from (m(mo_id mo \<mapsto> i)) rest"

definition motion_index_map :: "motion list \<Rightarrow> (int option \<rightharpoonup> nat)" where
  "motion_index_map motion_param_list =
     motion_index_map_from Map.empty (enumerate 0 motion_param_list)"

fun dict_keys :: "'k list \<Rightarrow> 'k list" where
  "dict_keys [] = []"
| "dict_keys (k # ks) = k # removeAll k (dict_keys ks)"

text \<open>
  The state of the walk: \<open>processed_motion_ids\<close> (the set, kept as the list of the ids in
  the order in which they were added) and the blocks appended so far.
\<close>

record walk_state =
  processed_motion_ids :: "int option list"
  found_blocks :: "block list"

text \<open>
  \<^verbatim>\<open>
        for text_idx, text_param in enumerate(direct_text_params):
            if text_param and text_param.get("_text", "").strip():
                extracted_data["text_blocks"].append({
                    "motion_index": motion_idx, "text_index": text_idx,
                    "motion_name": motion_param.get("_name"),
                    "object_name": text_param.get("_objectName"),
                    "jpText": text_param.get("_text"), "enText": ""})
  \<close>
\<close>

definition motion_text_blocks :: "int \<Rightarrow> motion \<Rightarrow> block list" where
  "motion_text_blocks motion_idx motion_param =
     List.map_filter (\<lambda>(text_idx, text_param).
        if strip (get_str (tp_text text_param)) \<noteq> []
        then Some (empty_block\<lparr>motion_index := Some motion_idx, text_index := Some (int text_idx),
                               motion_name := mo_name motion_param,
                               object_name := tp_objectName text_param,
                               jpText := tp_text text_param, enText := Some []\<rparr>)
        else None)
       (enumerate 0 (mo_textParamList motion_param))"

text \<open>A loop of calls that each may raise, the state handed from one call to the next.\<close>

fun visit_all :: "('i \<Rightarrow> 's \<Rightarrow> py_error + 's) \<Rightarrow> 'i list \<Rightarrow> 's \<Rightarrow> py_error + 's" where
  "visit_all visit [] st = Inr st"
| "visit_all visit (c # cs) st =
     (case visit c st of Inl e \<Rightarrow> Inl e | Inr st' \<Rightarrow> visit_all visit cs st')"

text \<open>
  The recursive closure \<open>find_text_recursively\<close>. The first argument is the number of
  nested calls the interpreter still allows: a call without any left raises
  \<open>RecursionError\<close>. A child id is followed only \<open>if child_motion_id\<close>.
  \<^verbatim>\<open>
    def find_text_recursively(motion_id):
        if not motion_id or motion_id in processed_motion_ids:
            return
        processed_motion_ids.add(motion_id)
        motion_param = motion_map.get(motion_id)
        if not motion_param:
            return
        motion_idx = motion_index_map.get(motion_id, -1)
        ...
        for param_list_name in ["_objectParamList", "_planeParamList"]:
            for item_param in motion_param.get(param_list_name, []):
                child_motion_id = item_param.get("_childMotionID")
                if child_motion_id:
                    find_text_recursively(child_motion_id)
  \<close>
\<close>

primrec find_text_recursively ::
  "nat \<Rightarrow> (int option \<rightharpoonup> motion) \<Rightarrow> (int option \<rightharpoonup> nat) \<Rightarrow> int option \<Rightarrow> walk_state
     \<Rightarrow> py_error + walk_state" where
  "find_text_recursively 0 mmap imap motion_id st = Inl RecursionError"
| "find_text_recursively (Suc depth) mmap imap motion_id st =
     (if falsy_id motion_id \<or> motion_id \<in> set (processed_motion_ids st) then Inr st
      else
        let st1 = st\<lparr>processed_motion_ids := processed_motion_ids st @ [motion_id]\<rparr>
        in case mmap motion_id of
             None \<Rightarrow> Inr st1
           | Some motion_param \<Rightarrow>
               let motion_idx = (case imap motion_id of None \<Rightarrow> - 1 | Some i \<Rightarrow> int i);
                   st2 = st1\<lparr>found_blocks :=
                                found_blocks st1 @ motion_text_blocks motion_idx motion_param\<rparr>
               in visit_all (find_text_recursively depth mmap imap)
                    (filter (\<lambda>child_motion_id. \<not> falsy_id child_motion_id)
                       (mo_objectParamList motion_param @ mo_planeParamList motion_param))
                    st2)"

fun find_main_mono :: "uobject list \<Rightarrow> main_mono option" where
  "find_main_mono [] = None"
| "find_main_mono (obj # objects) =
     (if obj_type obj = MonoBehaviour
      then (case obj_tree obj of
              Inr (MotionGroup tree) \<Rightarrow> Some tree
            | _ \<Rightarrow> find_main_mono objects)
      else find_main_mono objects)"

text \<open>
  The walk from the root id if there is one, otherwise from every key of \<open>motion_map\<close> in
  turn; the final state of the walk.
\<close>

definition walk_motions :: "nat \<Rightarrow> main_mono \<Rightarrow> py_error + walk_state" where
  "walk_motions depth main =
     (let motion_param_list = mm_motionParameterList main;
          mmap = motion_map motion_param_list;
          imap = motion_index_map motion_param_list;
          st0 = \<lparr> processed_motion_ids = [], found_blocks = [] \<rparr>
      in if \<not> falsy_id (mm_rootMotionID main)
         then find_text_recursively depth mmap imap (mm_rootMotionID main) st0
         else visit_all (find_text_recursively depth mmap imap)
                (dict_keys (map mo_id motion_param_list)) st0)"

text \<open>
  A walker returns a document, returns \<open>None\<close>, or raises.
\<close>

definition parse_uianimation :: "nat \<Rightarrow> uobject list \<Rightarrow> py_error + document option" where
  "parse_uianimation depth objects =
     (case find_main_mono objects of
        None \<Rightarrow> Inr None
      | Some main \<Rightarrow>
          if mm_motionParameterList main = [] then Inr (Some new_document)
          else (case walk_motions depth main of
                  Inl e \<Rightarrow> Inl e
                | Inr st \<Rightarrow> Inr (Some (new_document\<lparr>text_blocks := found_blocks st\<rparr>))))"

section \<open>The asset index (AssetManager.get\_asset\_info)\<close>

text \<open>
  The table \<open>a\<close> of the meta database: rows \<open>(n, h, e)\<close> in the order in which the store
  yields them. The store's \<open>LIKE\<close> operator (pattern first) and the failure of a query are
  the store's; \<open>fetchone\<close> gives the first row of the result.
\<close>

datatype query = Exact pystr | Like pystr

record meta_db =
  table_a :: "(pystr \<times> pystr option \<times> int option) list"
  like_op :: "pystr \<Rightarrow> pystr \<Rightarrow> bool"
  query_fails :: "query \<Rightarrow> bool"

definition fetchone :: "meta_db \<Rightarrow> query \<Rightarrow> py_error + (pystr option \<times> int option) option" where
  "fetchone db q =
     (if query_fails db q then Inl DatabaseError
      else Inr (map_option snd
             (find (\<lambda>(n, h, e). case q of Exact name \<Rightarrow> n = name
                                          | Like pattern \<Rightarrow> like_op db pattern n)
                   (table_a db))))"

text \<open>\<open>row[0], int(row[1]) if row[1] else 0\<close>\<close>

definition row_info :: "pystr option \<times> int option \<Rightarrow> pystr option \<times> int option" where
  "row_info row = (fst row, Some (case snd row of None \<Rightarrow> 0 | Some e \<Rightarrow> e))"

text \<open>
  \<open>get_asset_info\<close> returns the pair of hash and key, \<open>(None, None)\<close> when nothing is found.
  The model returns with it the queries that were sent to the store, in order.
  \<^verbatim>\<open>
        try:
            row = cursor.execute("SELECT h, e FROM a WHERE n = ?", (name_pattern,)).fetchone()
            if row:
                return row[0], int(row[1]) if row[1] else 0
        except Exception as e: ...
        try:
            row = cursor.execute("SELECT h, e FROM a WHERE n LIKE ?", (name_pattern + '%',)).fetchone()
            if row:
                return row[0], int(row[1]) if row[1] else 0
        except Exception as e: ...
        return None, None
  \<close>
\<close>

definition get_asset_info ::
  "meta_db \<Rightarrow> pystr \<Rightarrow> (pystr option \<times> int option) \<times> query list" where
  "get_asset_info db name_pattern =
     (case fetchone db (Exact name_pattern) of
        Inr (Some row) \<Rightarrow> (row_info row, [Exact name_pattern])
      | _ \<Rightarrow>
          (case fetchone db (Like (name_pattern @ [37])) of
             Inr (Some row) \<Rightarrow> (row_info row, [Exact name_pattern, Like (name_pattern @ [37])])
           | _ \<Rightarrow> ((None, None), [Exact name_pattern, Like (name_pattern @ [37])])))"

text \<open>A \<open>LIKE\<close> that knows the wildcard \<open>%\<close> at the end of the pattern only, for the examples.\<close>

definition prefix_like :: "pystr \<Rightarrow> pystr \<Rightarrow> bool" where
  "prefix_like pattern n = (take (length pattern - 1) n = butlast pattern)"

section \<open>Downloading a bundle (AssetManager.download\_asset)\<close>

text \<open>
  The world the download acts on: the files (a path is the list of its components) and
  the URLs requested so far. What the network and the disk do is given by \<open>io\<close>: whether
  \<open>os.makedirs\<close> and \<open>open\<close> raise \<open>OSError\<close>, what \<open>requests.get\<close> gives for a URL, and how
  many chunk writes succeed before a write raises \<open>OSError\<close> (\<open>None\<close>: all of them).
\<close>

datatype url = BundleUrl pystr pystr pystr | GenericUrl pystr pystr

record response =
  status_error :: bool
  content_length_ok :: bool
  chunks :: "byte list list"
  stream_error :: "py_error option"

record world =
  files :: "pystr list \<rightharpoonup> byte list"
  requests_made :: "url list"

record io =
  makedirs_error :: bool
  get_result :: "url \<Rightarrow> py_error + response"
  open_error :: bool
  writes_before_error :: "nat option"

definition get_asset_path :: "pystr \<Rightarrow> pystr \<Rightarrow> pystr list" where
  "get_asset_path asset_dir hash_str = [asset_dir, take 2 hash_str, hash_str]"

text \<open>The category strings \<open>'bundle'\<close> and \<open>'generic'\<close>.\<close>

definition url_of :: "pystr \<Rightarrow> pystr \<Rightarrow> pystr \<Rightarrow> url option" where
  "url_of platform hash_str category =
     (if category = [98, 117, 110, 100, 108, 101]
      then Some (BundleUrl platform (take 2 hash_str) hash_str)
      else if category = [103, 101, 110, 101, 114, 105, 99]
      then Some (GenericUrl (take 2 hash_str) hash_str)
      else None)"

text \<open>
  \<open>for chunk in response.iter_content(...): f.write(chunk)\<close>: the content of the file after
  the loop, and the exception that ended it, if one did.
\<close>

fun write_chunks :: "byte list list \<Rightarrow> nat option \<Rightarrow> byte list \<Rightarrow> py_error option \<times> byte list" where
  "write_chunks [] left content = (None, content)"
| "write_chunks (chunk # rest) left content =
     (if left = Some 0 then (Some OSError, content)
      else write_chunks rest (map_option (\<lambda>n. n - 1) left) (content @ chunk))"

text \<open>
  The handler \<open>except requests.exceptions.RequestException\<close>: it removes the file and
  returns \<open>False\<close>; any other exception leaves the function as it is.
\<close>

definition download_failed :: "py_error \<Rightarrow> pystr list \<Rightarrow> world \<Rightarrow> (py_error + bool) \<times> world" where
  "download_failed e asset_path w =
     (if e = RequestException
      then (Inr False, w\<lparr>files := (files w)(asset_path := None)\<rparr>)
      else (Inl e, w))"

definition download_asset ::
  "bool \<Rightarrow> io \<Rightarrow> pystr \<Rightarrow> pystr \<Rightarrow> world \<Rightarrow> pystr \<Rightarrow> pystr \<Rightarrow> (py_error + bool) \<times> world" where
  "download_asset auto_download_assets env platform asset_dir w hash_str category =
     (if \<not> auto_download_assets then (Inr False, w)
      else
        let asset_path = get_asset_path asset_dir hash_str
        in (case url_of platform hash_str category of
              None \<Rightarrow> (Inr False, w)
            | Some u \<Rightarrow>
                if makedirs_error env then download_failed OSError asset_path w
                else
                  let w1 = w\<lparr>requests_made := requests_made w @ [u]\<rparr>
                  in (case get_result env u of
                        Inl e \<Rightarrow> download_failed e asset_path w1
                      | Inr resp \<Rightarrow>
                          if status_error resp then download_failed RequestException asset_path w1
                          else if \<not> content_length_ok resp then download_failed ValueError asset_path w1
                          else if open_error env then download_failed OSError asset_path w1
                          else
                            let written = write_chunks (chunks resp) (writes_before_error env) [];
                                w2 = w1\<lparr>files := (files w1)(asset_path \<mapsto> snd written)\<rparr>
                            in (case fst written of
                                  Some e \<Rightarrow> download_failed e asset_path w2
                                | None \<Rightarrow>
                                    (case stream_error resp of
                                       Some e \<Rightarrow> download_failed e asset_path w2
                                     | None \<Rightarrow> (Inr True, w2))))))"

section \<open>Extraction of one asset (extractor.py)\<close>

definition parser_func ::
  "asset_kind \<Rightarrow> nat \<Rightarrow> uobject list \<Rightarrow> (int \<rightharpoonup> pystr) \<Rightarrow> py_error + document option" where
  "parser_func kind depth env char_names =
     (case kind of
        Story \<Rightarrow> Inr (parse_story_timeline env char_names)
      | Race \<Rightarrow> Inr (parse_race_story env)
      | Lyrics \<Rightarrow> Inr (parse_lyrics env)
      | Home \<Rightarrow> Inr (parse_home_timeline env char_names)
      | Preview \<Rightarrow> Inr (parse_preview env)
      | UIAnimation \<Rightarrow> parse_uianimation depth env
      | Generic \<Rightarrow> Inr (parse_generic env))"

text \<open>
  What \<open>extract_asset_data\<close> asks of the asset manager: the loaded bundle (\<open>None\<close> when
  \<open>load_bundle\<close> fails), the character names, the group name of the asset, the index and
  the lower-case platform name. \<open>existing_tl\<close> is the file at \<open>workspace_path\<close>.
\<close>

record manager =
  load_bundle :: "uobject list option"
  text_data_category_6 :: "int \<rightharpoonup> pystr"
  group_name_of :: "pystr option"
  meta :: meta_db
  platform_lower :: pystr

definition extract_asset_data ::
  "(pystr \<Rightarrow> pystr \<Rightarrow> real) \<Rightarrow> nat \<Rightarrow> manager \<Rightarrow> asset_kind \<Rightarrow> pystr \<Rightarrow> json_file option
     \<Rightarrow> py_error + document" where
  "extract_asset_data sim depth mgr kind name existing_tl =
     (case load_bundle mgr of
        None \<Rightarrow> Inl RuntimeError
      | Some env \<Rightarrow>
          (case parser_func kind depth env (text_data_category_6 mgr) of
             Inl e \<Rightarrow> Inl e
           | Inr None \<Rightarrow> Inl RuntimeError
           | Inr (Some extracted_data) \<Rightarrow>
               let d1 = extracted_data\<lparr>asset_name := Some name\<rparr>;
                   d2 = (if truthy_str (group_name_of mgr)
                         then d1\<lparr>group_name := group_name_of mgr\<rparr> else d1);
                   d3 = d2\<lparr>doc_type := Some kind\<rparr>;
                   d4 = (if kind = UIAnimation
                         then (case fst (fst (get_asset_info (meta mgr) name)) of
                                 None \<Rightarrow> d3
                               | Some hash_str \<Rightarrow>
                                   if hash_str = [] then d3
                                   else d3\<lparr>bundle_hashes := Some (platform_lower mgr, hash_str)\<rparr>)
                         else d3)
               in if kind \<noteq> UIAnimation then merge_translations sim d4 existing_tl
                  else Inr d4))"




section \<open>Vocabulary of the statements and example inputs\<close>




text \<open>
  The ids of the motion map that the walk has not yet processed.
\<close>

definition unprocessed :: "(int option \<rightharpoonup> motion) \<Rightarrow> walk_state \<Rightarrow> int option set" where
  "unprocessed mmap st = dom mmap - set (processed_motion_ids st)"

text \<open>
  The rows that the two queries of \<open>get_asset_info\<close> select, in the order of the store.
\<close>

definition exact_rows :: "meta_db \<Rightarrow> pystr \<Rightarrow> (pystr \<times> pystr option \<times> int option) list" where
  "exact_rows db name = filter (\<lambda>(n, h, e). n = name) (table_a db)"

definition prefix_rows :: "meta_db \<Rightarrow> pystr \<Rightarrow> (pystr \<times> pystr option \<times> int option) list" where
  "prefix_rows db name = filter (\<lambda>(n, h, e). like_op db (name @ [37]) n) (table_a db)"

text \<open>
  A story bundle of three entries: the entry the walker never reads, a clip with cue id
  10 and difference flag 2, and a clip with cue id 20 and difference flag 4.
\<close>

definition cue_clip_b :: text_clip where
  "cue_clip_b = \<lparr> tc_Name = [], tc_Text = Some [12354], tc_CueId = Some 10,
     tc_VoiceSheetId = None, tc_DifferenceFlag = Some 2, tc_NextBlock = None,
     tc_ChoiceDataList = [], tc_ColorTextInfoList = [] \<rparr>"

definition cue_clip_c :: text_clip where
  "cue_clip_c = \<lparr> tc_Name = [], tc_Text = Some [12356], tc_CueId = Some 20,
     tc_VoiceSheetId = None, tc_DifferenceFlag = Some 4, tc_NextBlock = None,
     tc_ChoiceDataList = [], tc_ColorTextInfoList = [] \<rparr>"

definition cue_env :: "uobject list" where
  "cue_env =
     [\<lparr> obj_path_id = 1, obj_type = MonoBehaviour,
        obj_tree = Inr (Timeline \<lparr> tl_Title = None,
                                    tl_BlockList = [NoClip, ClipPathId 10, ClipPathId 11] \<rparr>) \<rparr>,
      \<lparr> obj_path_id = 10, obj_type = MonoBehaviour, obj_tree = Inr (Clip cue_clip_b) \<rparr>,
      \<lparr> obj_path_id = 11, obj_type = MonoBehaviour, obj_tree = Inr (Clip cue_clip_c) \<rparr>]"




text \<open>
  A motion graph of one motion whose only child is the motion itself.
\<close>

definition self_loop :: main_mono where
  "self_loop = \<lparr> mm_motionParameterList =
       [\<lparr> mo_id = Some 1, mo_name = Some [109],
          mo_textParamList = [\<lparr> tp_text = Some [12354], tp_objectName = Some [116] \<rparr>],
          mo_objectParamList = [Some 1], mo_planeParamList = [] \<rparr>],
     mm_rootMotionID = Some 1 \<rparr>"

text \<open>
  An index in which the name \<open>X\<close> (code point 88) is registered exactly, after a row whose
  name starts with \<open>X\<close>.
\<close>

definition index_db :: meta_db where
  "index_db = \<lparr> table_a = [([88, 115, 117, 102], Some [99, 100], Some 7),
                            ([88], Some [97, 98], Some 5),
                            ([90], Some [101, 102], None)],
                 like_op = prefix_like,
                 query_fails = (\<lambda>q. False) \<rparr>"

text \<open>
  A server that answers with two chunks, on a disk where the second write fails, and a
  server whose stream breaks after the first chunk.
\<close>

definition two_chunks :: response where
  "two_chunks = \<lparr> status_error = False, content_length_ok = True,
                   chunks = [[1, 2, 3], [4, 5, 6]], stream_error = None \<rparr>"

definition disk_full :: io where
  "disk_full = \<lparr> makedirs_error = False, get_result = (\<lambda>u. Inr two_chunks),
                  open_error = False, writes_before_error = Some 1 \<rparr>"

definition stream_breaks :: io where
  "stream_breaks = \<lparr> makedirs_error = False,
       get_result = (\<lambda>u. Inr (two_chunks\<lparr>chunks := [[1, 2, 3]], stream_error := Some RequestException\<rparr>)),
       open_error = False, writes_before_error = None \<rparr>"

definition no_files :: world where
  "no_files = \<lparr> files = Map.empty, requests_made = [] \<rparr>"


definition ui_mgr :: manager where
  "ui_mgr = \<lparr> load_bundle = Some [\<lparr> obj_path_id = 1, obj_type = MonoBehaviour,
                                      obj_tree = Inr (MotionGroup self_loop) \<rparr>],
               text_data_category_6 = Map.empty, group_name_of = None,
               meta = index_db, platform_lower = [119] \<rparr>"

definition ui_old :: document where
  "ui_old = new_document\<lparr>text_blocks :=
      [empty_block\<lparr>motion_index := Some 0, text_index := Some 0, jpText := Some [12354],
                   enText := Some [65]\<rparr>]\<rparr>"

section \<open>Properties of the key stream decryption\<close>

lemma xor_loop_result:
  assumes "final_key \<noteq> []" and "distinct offs" and "\<forall>i\<in>set offs. i < length d"
  shows "\<exists>out. xor_loop offs final_key d = Inr out \<and> length out = length d \<and>
           (\<forall>i<length d. out ! i =
              (if i \<in> set offs then (d ! i) XOR (final_key ! (i mod length final_key)) else d ! i))"
  using assms
proof (induction offs arbitrary: d)
  case Nil
  then show ?case by simp
next
  case (Cons j offs)
  let ?d = "d[j := (d ! j) XOR (final_key ! (j mod length final_key))]"
  from Cons.prems have "distinct offs" and "\<forall>i\<in>set offs. i < length ?d" and "j \<notin> set offs"
    by simp_all
  with Cons.IH [of ?d] Cons.prems(1) obtain out where
    out: "xor_loop offs final_key ?d = Inr out" "length out = length ?d"
      "\<forall>i<length ?d. out ! i =
          (if i \<in> set offs then (?d ! i) XOR (final_key ! (i mod length final_key)) else ?d ! i)"
    by blast
  have "xor_loop (j # offs) final_key d = Inr out"
    using out(1) Cons.prems(1) by simp
  moreover have "length out = length d"
    using out(2) by simp
  moreover have "\<forall>i<length d. out ! i =
      (if i \<in> set (j # offs) then (d ! i) XOR (final_key ! (i mod length final_key)) else d ! i)"
  proof (intro allI impI)
    fix i assume i: "i < length d"
    with out(3) have o: "out ! i =
        (if i \<in> set offs then (?d ! i) XOR (final_key ! (i mod length final_key)) else ?d ! i)"
      by simp
    show "out ! i =
      (if i \<in> set (j # offs) then (d ! i) XOR (final_key ! (i mod length final_key)) else d ! i)"
    proof (cases "i = j")
      case True
      with o \<open>j \<notin> set offs\<close> i show ?thesis by simp
    next
      case False
      with o show ?thesis by simp
    qed
  qed
  ultimately show ?case by blast
qed

lemma decrypt_asset_data_result:
  assumes "final_key \<noteq> []"
  shows "\<exists>out. decrypt_asset_data data final_key = Inr out \<and> length out = length data \<and>
           (\<forall>i<length data. out ! i =
              (if 256 \<le> i then (data ! i) XOR (final_key ! (i mod length final_key)) else data ! i))"
proof -
  from xor_loop_result [of final_key "[256..<length data]" data] assms
  obtain out where out: "xor_loop [256..<length data] final_key data = Inr out"
      "length out = length data"
      "\<forall>i<length data. out ! i =
          (if i \<in> set [256..<length data]
           then (data ! i) XOR (final_key ! (i mod length final_key)) else data ! i)"
    by auto
  from out(3) have "\<forall>i<length data. out ! i =
      (if 256 \<le> i then (data ! i) XOR (final_key ! (i mod length final_key)) else data ! i)"
    by auto
  with out(1,2) show ?thesis
    unfolding decrypt_asset_data_def by blast
qed

text \<open>
  C4. For every payload and every non-empty key stream, \<open>decrypt_asset_data\<close> returns a
  payload of the same length whose first 256 bytes are those of the input and whose byte
  at each offset \<open>i \<ge> 256\<close> is the input byte XORed with \<open>final_key[i mod len(final_key)]\<close>;
  applying it a second time with the same key stream returns the original payload.
\<close>

theorem decrypt_asset_data_xor_involution:
  assumes "final_key \<noteq> []"
  shows "\<exists>out. decrypt_asset_data data final_key = Inr out
           \<and> length out = length data
           \<and> take 256 out = take 256 data
           \<and> (\<forall>i. 256 \<le> i \<and> i < length data \<longrightarrow>
                 out ! i = (data ! i) XOR (final_key ! (i mod length final_key)))
           \<and> decrypt_asset_data out final_key = Inr data"
proof -
  from decrypt_asset_data_result [OF assms, of data] obtain out where
    out: "decrypt_asset_data data final_key = Inr out" "length out = length data"
      "\<forall>i<length data. out ! i =
          (if 256 \<le> i then (data ! i) XOR (final_key ! (i mod length final_key)) else data ! i)"
    by blast
  from decrypt_asset_data_result [OF assms, of out] obtain twice where
    twice: "decrypt_asset_data out final_key = Inr twice" "length twice = length out"
      "\<forall>i<length out. twice ! i =
          (if 256 \<le> i then (out ! i) XOR (final_key ! (i mod length final_key)) else out ! i)"
    by blast
  have "take 256 out = take 256 data"
  proof (rule nth_equalityI)
    show "length (take 256 out) = length (take 256 data)" using out(2) by simp
  next
    fix i assume "i < length (take 256 out)"
    then have "i < 256" and "i < length data" using out(2) by simp_all
    with out(3) show "take 256 out ! i = take 256 data ! i" by simp
  qed
  moreover have "twice = data"
  proof (rule nth_equalityI)
    show "length twice = length data" using twice(2) out(2) by simp
  next
    fix i assume "i < length twice"
    then have i: "i < length data" using twice(2) out(2) by simp
    with twice(3) out(2,3) show "twice ! i = data ! i"
      by (simp add: xor.assoc)
  qed
  ultimately show ?thesis
    using out twice(1) by auto
qed

theorem decrypt_asset_data_xor_involution_witness:
  "[1, 2 :: byte] \<noteq> [] \<and>
   (\<exists>out. decrypt_asset_data (replicate 256 7 @ [5, 6, 9]) [1, 2] = Inr out
      \<and> length out = length (replicate 256 (7::byte) @ [5, 6, 9])
      \<and> take 256 out = take 256 (replicate 256 7 @ [5, 6, 9])
      \<and> (\<forall>i. 256 \<le> i \<and> i < length (replicate 256 (7::byte) @ [5, 6, 9]) \<longrightarrow>
             out ! i = ((replicate 256 7 @ [5, 6, 9]) ! i) XOR ([1, 2] ! (i mod length [1, 2::byte])))
      \<and> decrypt_asset_data out [1, 2] = Inr (replicate 256 7 @ [5, 6, 9]))"
  using decrypt_asset_data_xor_involution [of "[1, 2]" "replicate 256 7 @ [5, 6, 9]"]
  by simp

section \<open>Properties of the merge\<close>


lemma ex_max_key:
  fixes key :: "'a \<Rightarrow> real"
  shows "xs \<noteq> [] \<Longrightarrow> \<exists>c\<in>set xs. \<forall>y\<in>set xs. key y \<le> key c"
proof (induction xs)
  case Nil
  then show ?case by simp
next
  case (Cons a xs)
  show ?case
  proof (cases "xs = []")
    case True
    then show ?thesis by simp
  next
    case False
    with Cons.IH obtain c where c: "c \<in> set xs" "\<forall>y\<in>set xs. key y \<le> key c" by blast
    show ?thesis
    proof (cases "key a \<le> key c")
      case True
      with c show ?thesis by auto
    next
      case False
      with c have "\<forall>y\<in>set (a # xs). key y \<le> key a" by fastforce
      then show ?thesis by auto
    qed
  qed
qed

lemma foldl_max_find:
  fixes key :: "'a \<Rightarrow> real"
  shows "foldl (\<lambda>best y. if key best < key y then y else best) b xs =
     (case find (\<lambda>c. key b < key c \<and> (\<forall>y\<in>set xs. key y \<le> key c)) xs of
        None \<Rightarrow> b | Some c \<Rightarrow> c)"
proof (induction xs arbitrary: b)
  case Nil
  then show ?case by simp
next
  case (Cons z zs)
  let ?step = "\<lambda>best y. if key best < key y then y else best"
  let ?top = "\<lambda>c. \<forall>y\<in>set zs. key y \<le> key c"
  show ?case
  proof (cases "key b < key z")
    case bz: True
    have ih: "foldl ?step z zs = (case find (\<lambda>c. key z < key c \<and> ?top c) zs of None \<Rightarrow> z | Some c \<Rightarrow> c)"
      by (rule Cons.IH)
    show ?thesis
    proof (cases "?top z")
      case True
      then have "find (\<lambda>c. key z < key c \<and> ?top c) zs = None"
        by (auto simp: find_None_iff)
      with ih bz True show ?thesis by simp
    next
      case False
      then have "zs \<noteq> []" by auto
      from ex_max_key [OF this, of key] obtain m where m: "m \<in> set zs" "?top m" by blast
      from False m have zm: "key z < key m" by force
      have agree: "\<And>c. c \<in> set zs \<Longrightarrow>
          (key z < key c \<and> ?top c) = (key b < key c \<and> (\<forall>y\<in>set (z # zs). key y \<le> key c))"
        using bz zm m by fastforce
      have "find (\<lambda>c. key z < key c \<and> ?top c) zs =
            find (\<lambda>c. key b < key c \<and> (\<forall>y\<in>set (z # zs). key y \<le> key c)) zs"
        by (rule find_cong) (simp_all add: agree)
      moreover have "find (\<lambda>c. key z < key c \<and> ?top c) zs \<noteq> None"
        using m zm by (auto simp: find_None_iff)
      ultimately show ?thesis using ih bz False by auto
    qed
  next
    case nbz: False
    have ih: "foldl ?step b zs = (case find (\<lambda>c. key b < key c \<and> ?top c) zs of None \<Rightarrow> b | Some c \<Rightarrow> c)"
      by (rule Cons.IH)
    have agree: "\<And>c. c \<in> set zs \<Longrightarrow>
          (key b < key c \<and> ?top c) = (key b < key c \<and> (\<forall>y\<in>set (z # zs). key y \<le> key c))"
      using nbz by fastforce
    have "find (\<lambda>c. key b < key c \<and> ?top c) zs =
            find (\<lambda>c. key b < key c \<and> (\<forall>y\<in>set (z # zs). key y \<le> key c)) zs"
      by (rule find_cong) (simp_all add: agree)
    with ih nbz show ?thesis by simp
  qed
qed

lemma max_by_find:
  fixes key :: "'a \<Rightarrow> real"
  shows "max_by key xs = find (\<lambda>c. \<forall>y\<in>set xs. key y \<le> key c) xs"
proof (cases xs)
  case Nil
  then show ?thesis by simp
next
  case (Cons x zs)
  let ?top = "\<lambda>c. \<forall>y\<in>set zs. key y \<le> key c"
  have fold: "max_by key xs =
      Some (case find (\<lambda>c. key x < key c \<and> ?top c) zs of None \<Rightarrow> x | Some c \<Rightarrow> c)"
    using Cons by (simp add: foldl_max_find)
  show ?thesis
  proof (cases "?top x")
    case True
    then have "find (\<lambda>c. key x < key c \<and> ?top c) zs = None"
      by (auto simp: find_None_iff)
    with fold True Cons show ?thesis by simp
  next
    case False
    then have "zs \<noteq> []" by auto
    from ex_max_key [OF this, of key] obtain m where m: "m \<in> set zs" "?top m" by blast
    from False m have xm: "key x < key m" by force
    have agree: "\<And>c. c \<in> set zs \<Longrightarrow>
        (key x < key c \<and> ?top c) = (key x \<le> key c \<and> ?top c)"
      using xm m by fastforce
    have eq: "find (\<lambda>c. key x < key c \<and> ?top c) zs = find (\<lambda>c. key x \<le> key c \<and> ?top c) zs"
      by (rule find_cong) (simp_all add: agree)
    have "find (\<lambda>c. key x < key c \<and> ?top c) zs \<noteq> None"
      using m xm by (auto simp: find_None_iff)
    then obtain c where c: "find (\<lambda>c. key x < key c \<and> ?top c) zs = Some c" by blast
    have "max_by key xs = Some c" using fold c by simp
    moreover have "find (\<lambda>c. \<forall>y\<in>set xs. key y \<le> key c) xs = Some c"
      using Cons False eq c by auto
    ultimately show ?thesis by simp
  qed
qed

lemma lookup_from:
  "old_text_lookup_from m bs k =
     (case filter (\<lambda>ob. truthy_str (jpText ob) \<and> strip (get_str (jpText ob)) = k) bs of
        [] \<Rightarrow> m k | ms \<Rightarrow> Some (last ms))"
proof (induction bs arbitrary: m)
  case Nil
  then show ?case by simp
next
  case (Cons b bs)
  then show ?case by (auto split: list.splits)
qed

lemma old_text_lookup_exact:
  "old_text_lookup old_blocks (strip jp_text) =
     (case exact_matches old_blocks jp_text of [] \<Rightarrow> None | ms \<Rightarrow> Some (last ms))"
  by (simp add: old_text_lookup_def exact_matches_def lookup_from)

lemma copy_choices_zip:
  "copy_choices ncs ocs =
     map2 (\<lambda>nc oc. nc\<lparr>c_enText := Some (get_str (c_enText oc))\<rparr>) ncs ocs @ drop (length ocs) ncs"
proof (rule nth_equalityI)
  show "length (copy_choices ncs ocs) =
      length (map2 (\<lambda>nc oc. nc\<lparr>c_enText := Some (get_str (c_enText oc))\<rparr>) ncs ocs @ drop (length ocs) ncs)"
    by (simp add: copy_choices_def)
next
  fix i assume "i < length (copy_choices ncs ocs)"
  then have i: "i < length ncs" by (simp add: copy_choices_def)
  show "copy_choices ncs ocs ! i =
      (map2 (\<lambda>nc oc. nc\<lparr>c_enText := Some (get_str (c_enText oc))\<rparr>) ncs ocs @ drop (length ocs) ncs) ! i"
  proof (cases "i < length ocs")
    case True
    with i show ?thesis
      by (simp add: copy_choices_def nth_enumerate_eq nth_append)
  next
    case False
    with i show ?thesis
      by (simp add: copy_choices_def nth_enumerate_eq nth_append min_def)
  qed
qed

lemma apply_match_copy: "apply_match bm nb = copy_translation bm nb"
  by (cases "enName bm"; cases "choices nb"; cases "choices bm")
     (simp_all add: apply_match_def copy_translation_def copy_choices_zip get_str_def Let_def)

lemma merge_block_spec:
  assumes "empty_block \<notin> set old_blocks"
  shows "merge_block sim old_blocks (old_text_lookup old_blocks) nb = spec_merge_block sim old_blocks nb"
proof (cases "truthy_str (jpText nb)")
  case False
  then show ?thesis by (simp add: merge_block_def spec_merge_block_def)
next
  case True
  let ?jp = "get_str (jpText nb)"
  show ?thesis
  proof (cases "exact_matches old_blocks ?jp")
    case Nil
    then have look: "old_text_lookup old_blocks (strip ?jp) = None"
      by (simp add: old_text_lookup_exact)
    have best: "max_by (\<lambda>ob. sim ?jp (get_str (jpText ob))) old_blocks = most_similar sim ?jp old_blocks"
      by (simp add: max_by_find most_similar_def)
    show ?thesis
    proof (cases "most_similar sim ?jp old_blocks")
      case None
      with True Nil look best show ?thesis
        by (simp add: merge_block_def spec_merge_block_def truthy_block_def)
    next
      case (Some bm)
      then have "bm \<in> set old_blocks"
        by (auto simp: most_similar_def find_Some_iff)
      with assms have "bm \<noteq> empty_block" by auto
      with True Nil look best Some show ?thesis
        by (simp add: merge_block_def spec_merge_block_def truthy_block_def apply_match_copy)
    qed
  next
    case (Cons m ms)
    let ?c = "last (m # ms)"
    have look: "old_text_lookup old_blocks (strip ?jp) = Some ?c"
      using Cons by (simp add: old_text_lookup_exact)
    have "?c \<in> set (exact_matches old_blocks ?jp)"
      unfolding Cons by (rule last_in_set) simp
    then have "?c \<in> set old_blocks" by (simp add: exact_matches_def)
    with assms have "?c \<noteq> empty_block" by auto
    with True Cons look show ?thesis
      by (simp add: merge_block_def spec_merge_block_def truthy_block_def apply_match_copy)
  qed
qed

text \<open>
  C2. In \<open>merge_translations\<close> with an existing document, every new block with a non-empty
  source text is treated as follows. The index built once over the existing blocks is
  asked for the trimmed source text; if it has no block, the existing block of maximal
  similarity to the new source text is taken. The candidate's translated text, its
  translated speaker name when present and its translated choice texts (by position, up
  to the shorter list) are copied into the new block if and only if the similarity of
  the two source texts exceeds 0.85; in every other case the new block is returned as it
  was, so the empty translated text the walkers gave it stays empty. Blocks without
  source text are returned as they were. (The existing blocks are dictionaries with at
  least one key.)
\<close>

theorem merge_translations_best_match:
  assumes "empty_block \<notin> set (text_blocks old_data)"
  shows "merge_translations sim new_data (Some (Json old_data)) =
           Inr (new_data\<lparr>text_blocks :=
                  map (spec_merge_block sim (text_blocks old_data)) (text_blocks new_data)\<rparr>)"
  using assms by (simp add: merge_translations_def merge_block_spec Let_def)

theorem merge_translations_best_match_witness:
  "empty_block \<notin> set (text_blocks hello_old) \<and>
   merge_translations ratio hello_new (Some (Json hello_old)) =
     Inr (hello_new\<lparr>text_blocks :=
            map (spec_merge_block ratio (text_blocks hello_old)) (text_blocks hello_new)\<rparr>) \<and>
   map enText (map (spec_merge_block ratio (text_blocks hello_old)) (text_blocks hello_new)) =
     [Some [72, 101, 108, 108, 111]]"
proof -
  have h: "empty_block \<notin> set (text_blocks hello_old)"
    by (simp add: hello_old_def empty_block_def)
  have e: "map enText (map (spec_merge_block ratio (text_blocks hello_old)) (text_blocks hello_new)) =
     [Some [72, 101, 108, 108, 111]]"
    by (simp add: hello_new_def hello_old_def spec_merge_block_def exact_matches_def
        most_similar_def copy_translation_def truthy_str_def get_str_def strip_def isspace_def
        ratio_def empty_block_def)
  from merge_translations_best_match [OF h, of ratio hello_new] h e show ?thesis by simp
qed











section \<open>The cue ids of the story walker\<close>

lemmas eval_story = parse_story_timeline_def objects_by_path_id_def story_turn_def clip_view_def
  story_block_data_def cue_offsets_def get_int_def get_str_def truthy_str_def or_str_def
  isdigit_def new_document_def empty_block_def Let_def

lemma story_turn_voiceIdx:
  "story_turn by_path_id char_names block_idx g entry = Some (b, g') \<Longrightarrow>
     \<exists>pid obj tree clip. entry = ClipPathId pid \<and> by_path_id pid = Some obj
        \<and> obj_tree obj = Inr tree \<and> clip_view tree = Some clip \<and> voiceIdx b = tc_CueId clip
        \<and> block_index b = Some (block_idx - 1)"
  by (auto simp: story_turn_def story_block_data_def Let_def
      split: clip_ref.splits option.splits sum.splits typetree.splits)

text \<open>
  C1. The specification says that the cue id recorded in an emitted block is the original
  cue id plus the offsets. The walker computes that sum (\<open>final_cue_id\<close>, here the first
  component of \<open>cue_offsets\<close>) and then stores the original \<open>CueId\<close>: on \<open>cue_env\<close> the
  block of the clip with cue id 10 and difference flag 2 is emitted with \<open>voiceIdx\<close> 10,
  while \<open>final_cue_id\<close> is 11; for the later clip with cue id 20 and flag 4 the computed
  value is 20, and the global offset is 1 only after it.
\<close>

theorem story_voiceIdx_not_renumbered:
  "\<exists>doc. parse_story_timeline cue_env Map.empty = Some doc
      \<and> map voiceIdx (text_blocks doc) = [Some 10, Some 20]
      \<and> map block_index (text_blocks doc) = [Some 0, Some 1]
      \<and> cue_offsets cue_clip_b 0 = (Some 11, 0)
      \<and> cue_offsets cue_clip_c 0 = (Some 20, 1)"
  by (simp add: cue_env_def cue_clip_b_def cue_clip_c_def eval_story)

section \<open>The walk over the motion graph\<close>

lemma visit_all_preserves:
  assumes "\<And>c s s'. visit c s = Inr s' \<Longrightarrow> Q s \<Longrightarrow> Q s'"
  shows "visit_all visit cs s = Inr s' \<Longrightarrow> Q s \<Longrightarrow> Q s'"
proof (induction cs arbitrary: s)
  case Nil
  then show ?case by simp
next
  case (Cons c cs)
  from Cons.prems(1) obtain s1 where s1: "visit c s = Inr s1" "visit_all visit cs s1 = Inr s'"
    by (auto split: sum.splits)
  from assms [OF s1(1) Cons.prems(2)] have "Q s1" .
  with Cons.IH [OF s1(2)] show ?case .
qed

lemma motion_text_blocks_untranslated:
  "\<forall>b\<in>set (motion_text_blocks motion_idx motion_param). enText b = Some [] \<and> block_index b = None"
  by (auto simp: motion_text_blocks_def List.map_filter_def empty_block_def split: if_splits)

lemma find_text_blocks_untranslated:
  "find_text_recursively depth mmap imap motion_id st = Inr st' \<Longrightarrow>
   \<forall>b\<in>set (found_blocks st). enText b = Some [] \<and> block_index b = None \<Longrightarrow>
   \<forall>b\<in>set (found_blocks st'). enText b = Some [] \<and> block_index b = None"
proof (induction depth arbitrary: motion_id st st')
  case 0
  then show ?case by simp
next
  case (Suc depth)
  let ?Q = "\<lambda>s. \<forall>b\<in>set (found_blocks s). enText b = Some [] \<and> block_index b = None"
  show ?case
  proof (cases "falsy_id motion_id \<or> motion_id \<in> set (processed_motion_ids st)")
    case True
    with Suc.prems show ?thesis by simp
  next
    case False
    let ?st1 = "st\<lparr>processed_motion_ids := processed_motion_ids st @ [motion_id]\<rparr>"
    show ?thesis
    proof (cases "mmap motion_id")
      case None
      with False Suc.prems show ?thesis by (auto simp: Let_def)
    next
      case (Some motion_param)
      let ?idx = "case imap motion_id of None \<Rightarrow> - 1 | Some i \<Rightarrow> int i"
      let ?st2 = "?st1\<lparr>found_blocks := found_blocks ?st1 @ motion_text_blocks ?idx motion_param\<rparr>"
      let ?cs = "filter (\<lambda>c. \<not> falsy_id c) (mo_objectParamList motion_param @ mo_planeParamList motion_param)"
      from False Some Suc.prems(1)
      have run: "visit_all (find_text_recursively depth mmap imap) ?cs ?st2 = Inr st'"
        by (simp add: Let_def)
      have "?Q ?st2"
        using Suc.prems(2) motion_text_blocks_untranslated [of ?idx motion_param] by auto
      with run show ?thesis
        by (rule visit_all_preserves [where Q = ?Q, rotated]) (rule Suc.IH)
    qed
  qed
qed

lemma dom_motion_map_from:
  "dom (motion_map_from m ms) = dom m \<union> set (map mo_id ms)"
  by (induction ms arbitrary: m) auto

lemma dom_motion_map: "dom (motion_map ms) = set (map mo_id ms)"
  by (simp add: motion_map_def dom_motion_map_from)

lemma card_dom_motion_map: "card (dom (motion_map ms)) \<le> length ms"
  by (metis dom_motion_map card_length length_map)

lemma visit_all_total:
  assumes step: "\<And>c s. c \<in> set cs \<Longrightarrow> I s \<Longrightarrow> \<exists>s'. visit c s = Inr s' \<and> I s'"
  shows "I s \<Longrightarrow> \<exists>s'. visit_all visit cs s = Inr s' \<and> I s'"
  using step
proof (induction cs arbitrary: s)
  case Nil
  then show ?case by simp
next
  case (Cons c cs)
  from Cons.prems(2) [of c s] Cons.prems(1) obtain s1 where s1: "visit c s = Inr s1" "I s1"
    by auto
  from Cons.IH [OF s1(2)] Cons.prems(2) obtain s' where "visit_all visit cs s1 = Inr s'" "I s'"
    by auto
  with s1 show ?case by simp
qed

lemma find_text_total:
  assumes fin: "finite (dom mmap)"
  shows "card (unprocessed mmap st) < depth \<Longrightarrow> distinct (processed_motion_ids st) \<Longrightarrow>
     \<exists>st'. find_text_recursively depth mmap imap motion_id st = Inr st'
        \<and> set (processed_motion_ids st) \<subseteq> set (processed_motion_ids st')
        \<and> distinct (processed_motion_ids st')"
proof (induction depth arbitrary: motion_id st)
  case 0
  then show ?case by simp
next
  case (Suc depth)
  show ?case
  proof (cases "falsy_id motion_id \<or> motion_id \<in> set (processed_motion_ids st)")
    case True
    with Suc.prems show ?thesis by simp
  next
    case False
    let ?st1 = "st\<lparr>processed_motion_ids := processed_motion_ids st @ [motion_id]\<rparr>"
    have d1: "distinct (processed_motion_ids ?st1)"
      using False Suc.prems(2) by simp
    show ?thesis
    proof (cases "mmap motion_id")
      case None
      with False d1 show ?thesis by (auto simp: Let_def)
    next
      case (Some motion_param)
      let ?idx = "case imap motion_id of None \<Rightarrow> - 1 | Some i \<Rightarrow> int i"
      let ?st2 = "?st1\<lparr>found_blocks := found_blocks ?st1 @ motion_text_blocks ?idx motion_param\<rparr>"
      let ?cs = "filter (\<lambda>c. \<not> falsy_id c) (mo_objectParamList motion_param @ mo_planeParamList motion_param)"
      let ?I = "\<lambda>s. set (processed_motion_ids ?st2) \<subseteq> set (processed_motion_ids s)
                   \<and> distinct (processed_motion_ids s)"
      have "motion_id \<in> unprocessed mmap st"
        using False Some by (auto simp: unprocessed_def)
      moreover have "finite (unprocessed mmap st)"
        using fin by (simp add: unprocessed_def)
      ultimately have "card (unprocessed mmap st - {motion_id}) < card (unprocessed mmap st)"
        by (rule card_Diff1_less [rotated])
      moreover have "unprocessed mmap ?st2 = unprocessed mmap st - {motion_id}"
        by (auto simp: unprocessed_def)
      ultimately have "card (unprocessed mmap ?st2) < card (unprocessed mmap st)"
        by (simp only:)
      with Suc.prems(1) have small: "card (unprocessed mmap ?st2) < depth" by simp
      have step: "\<exists>s'. find_text_recursively depth mmap imap c s = Inr s' \<and> ?I s'"
        if "?I s" for c s
      proof -
        from that have "unprocessed mmap s \<subseteq> unprocessed mmap ?st2"
          by (auto simp: unprocessed_def)
        moreover have "finite (unprocessed mmap ?st2)"
          using fin by (simp add: unprocessed_def)
        ultimately have "card (unprocessed mmap s) \<le> card (unprocessed mmap ?st2)"
          by (rule card_mono [rotated])
        with small have "card (unprocessed mmap s) < depth" by simp
        from Suc.IH [OF this, of c] that obtain s' where
          "find_text_recursively depth mmap imap c s = Inr s'"
          "set (processed_motion_ids s) \<subseteq> set (processed_motion_ids s')"
          "distinct (processed_motion_ids s')"
          by blast
        with that show ?thesis by auto
      qed
      have "?I ?st2" using d1 by simp
      from visit_all_total [where I = ?I and visit = "find_text_recursively depth mmap imap"
          and cs = ?cs, OF step this]
      obtain s' where s': "visit_all (find_text_recursively depth mmap imap) ?cs ?st2 = Inr s'" "?I s'"
        by blast
      have "find_text_recursively (Suc depth) mmap imap motion_id st = Inr s'"
        using False Some s'(1) by (simp add: Let_def)
      moreover have "set (processed_motion_ids st) \<subseteq> set (processed_motion_ids s')"
        using s'(2) by auto
      ultimately show ?thesis using s'(2) by blast
    qed
  qed
qed

lemma visit_all_cong_result:
  assumes "\<And>c s s'. c \<in> set cs \<Longrightarrow> visit c s = Inr s' \<Longrightarrow> visit' c s = Inr s'"
  shows "visit_all visit cs s = Inr s' \<Longrightarrow> visit_all visit' cs s = Inr s'"
  using assms
proof (induction cs arbitrary: s)
  case Nil
  then show ?case by simp
next
  case (Cons c cs)
  from Cons.prems(1) obtain s1 where s1: "visit c s = Inr s1" "visit_all visit cs s1 = Inr s'"
    by (auto split: sum.splits)
  from Cons.prems(2) [of c s s1] s1(1) have "visit' c s = Inr s1" by simp
  moreover from Cons.IH [OF s1(2)] Cons.prems(2) have "visit_all visit' cs s1 = Inr s'" by auto
  ultimately show ?case by simp
qed

lemma find_text_more_depth:
  "find_text_recursively depth mmap imap motion_id st = Inr st' \<Longrightarrow>
   find_text_recursively (Suc depth) mmap imap motion_id st = Inr st'"
proof (induction depth arbitrary: motion_id st st')
  case 0
  then show ?case by simp
next
  case (Suc depth)
  show ?case
  proof (cases "falsy_id motion_id \<or> motion_id \<in> set (processed_motion_ids st)")
    case True
    with Suc.prems show ?thesis by simp
  next
    case False
    show ?thesis
    proof (cases "mmap motion_id")
      case None
      with False Suc.prems show ?thesis by (simp add: Let_def)
    next
      case (Some motion_param)
      let ?st1 = "st\<lparr>processed_motion_ids := processed_motion_ids st @ [motion_id]\<rparr>"
      let ?idx = "case imap motion_id of None \<Rightarrow> - 1 | Some i \<Rightarrow> int i"
      let ?st2 = "?st1\<lparr>found_blocks := found_blocks ?st1 @ motion_text_blocks ?idx motion_param\<rparr>"
      let ?cs = "filter (\<lambda>c. \<not> falsy_id c) (mo_objectParamList motion_param @ mo_planeParamList motion_param)"
      from False Some Suc.prems
      have "visit_all (find_text_recursively depth mmap imap) ?cs ?st2 = Inr st'"
        by (simp add: Let_def)
      then have "visit_all (find_text_recursively (Suc depth) mmap imap) ?cs ?st2 = Inr st'"
        by (rule visit_all_cong_result [rotated]) (rule Suc.IH)
      with False Some show ?thesis
        using find_text_recursively.simps(2) [of "Suc depth" mmap imap motion_id st]
        by (simp add: Let_def)
    qed
  qed
qed

lemma find_text_depth_mono:
  "depth \<le> depth' \<Longrightarrow> find_text_recursively depth mmap imap motion_id st = Inr st' \<Longrightarrow>
   find_text_recursively depth' mmap imap motion_id st = Inr st'"
proof (induction depth' rule: dec_induct)
  case base
  then show ?case .
next
  case (step n)
  from step.IH [OF step.prems] show ?case by (rule find_text_more_depth)
qed

lemma walk_motions_total:
  assumes "length (mm_motionParameterList main) < depth"
  shows "\<exists>st. walk_motions depth main = Inr st \<and> distinct (processed_motion_ids st)"
proof -
  let ?ms = "mm_motionParameterList main"
  let ?mmap = "motion_map ?ms"
  let ?imap = "motion_index_map ?ms"
  let ?st0 = "\<lparr> processed_motion_ids = [], found_blocks = [] \<rparr>"
  have fin: "finite (dom ?mmap)" by (simp add: dom_motion_map)
  have bound: "card (unprocessed ?mmap s) < depth" for s
  proof -
    have "card (unprocessed ?mmap s) \<le> card (dom ?mmap)"
      using fin by (intro card_mono) (auto simp: unprocessed_def)
    also have "\<dots> \<le> length ?ms" by (rule card_dom_motion_map)
    finally show ?thesis using assms by simp
  qed
  have step: "\<exists>s'. find_text_recursively depth ?mmap ?imap c s = Inr s' \<and> distinct (processed_motion_ids s')"
    if "distinct (processed_motion_ids s)" for c s
    using find_text_total [OF fin bound that, of ?imap c] by blast
  show ?thesis
  proof (cases "falsy_id (mm_rootMotionID main)")
    case False
    with step [of ?st0 "mm_rootMotionID main"] show ?thesis
      by (simp add: walk_motions_def Let_def)
  next
    case True
    have "distinct (processed_motion_ids ?st0)" by simp
    from visit_all_total [where I = "\<lambda>s. distinct (processed_motion_ids s)"
        and visit = "find_text_recursively depth ?mmap ?imap"
        and cs = "dict_keys (map mo_id ?ms)", OF step this]
    show ?thesis using True by (simp add: walk_motions_def Let_def)
  qed
qed

lemma walk_motions_depth_mono:
  assumes "depth \<le> depth'" and "walk_motions depth main = Inr st"
  shows "walk_motions depth' main = Inr st"
proof (cases "falsy_id (mm_rootMotionID main)")
  case False
  with assms(2) have "find_text_recursively depth (motion_map (mm_motionParameterList main))
      (motion_index_map (mm_motionParameterList main)) (mm_rootMotionID main)
      \<lparr> processed_motion_ids = [], found_blocks = [] \<rparr> = Inr st"
    by (simp add: walk_motions_def Let_def)
  from find_text_depth_mono [OF assms(1) this] False show ?thesis
    by (simp add: walk_motions_def Let_def)
next
  case True
  let ?ms = "mm_motionParameterList main"
  from True assms(2)
  have "visit_all (find_text_recursively depth (motion_map ?ms) (motion_index_map ?ms))
          (dict_keys (map mo_id ?ms)) \<lparr> processed_motion_ids = [], found_blocks = [] \<rparr> = Inr st"
    by (simp add: walk_motions_def Let_def)
  then have "visit_all (find_text_recursively depth' (motion_map ?ms) (motion_index_map ?ms))
          (dict_keys (map mo_id ?ms)) \<lparr> processed_motion_ids = [], found_blocks = [] \<rparr> = Inr st"
    by (rule visit_all_cong_result [rotated]) (rule find_text_depth_mono [OF assms(1)])
  with True show ?thesis by (simp add: walk_motions_def Let_def)
qed

text \<open>
  C6. For every motion parameter graph, with cycles and self references or without, the
  walk returns: whenever the interpreter allows more nested calls than there are motions,
  it ends in one and the same final state, and in that state no motion id has been
  processed twice (the ids are recorded when the guard at the head of
  \<open>find_text_recursively\<close> lets them pass, and an id already recorded is turned away).
\<close>

theorem walk_motions_terminates_once:
  "\<exists>st. (\<forall>depth. length (mm_motionParameterList main) < depth \<longrightarrow> walk_motions depth main = Inr st)
        \<and> distinct (processed_motion_ids st)"
proof -
  let ?n = "length (mm_motionParameterList main)"
  from walk_motions_total [of main "Suc ?n"] obtain st where
    st: "walk_motions (Suc ?n) main = Inr st" "distinct (processed_motion_ids st)"
    by auto
  have "walk_motions depth main = Inr st" if "?n < depth" for depth
    using that st(1) by (simp add: walk_motions_depth_mono [of "Suc ?n" depth main st])
  with st(2) show ?thesis by blast
qed

lemmas eval_walk = walk_motions_def motion_map_def motion_index_map_def falsy_id_def
  motion_text_blocks_def enumerate_eq_zip strip_def isspace_def get_str_def Let_def

lemma self_loop_walk:
  "walk_motions 2 self_loop =
     Inr \<lparr> processed_motion_ids = [Some 1],
           found_blocks = [empty_block\<lparr>motion_index := Some 0, text_index := Some 0,
                             motion_name := Some [109], object_name := Some [116],
                             jpText := Some [12354], enText := Some []\<rparr>] \<rparr>"
  by (simp add: self_loop_def eval_walk numeral_2_eq_2)

theorem walk_motions_terminates_once_witness:
  "length (mm_motionParameterList self_loop) < 2
   \<and> (\<exists>st. walk_motions 2 self_loop = Inr st \<and> processed_motion_ids st = [Some 1]
          \<and> distinct (processed_motion_ids st))"
proof -
  have l: "length (mm_motionParameterList self_loop) < 2"
    by (simp add: self_loop_def)
  from walk_motions_terminates_once [of self_loop] l obtain st where
    st: "walk_motions 2 self_loop = Inr st" "distinct (processed_motion_ids st)"
    by blast
  from st(1) have "processed_motion_ids st = [Some 1]"
    by (auto simp: self_loop_walk)
  with l st show ?thesis by blast
qed

lemma walk_motions_untranslated:
  assumes "walk_motions depth main = Inr st"
  shows "\<forall>b\<in>set (found_blocks st). enText b = Some [] \<and> block_index b = None"
proof -
  let ?Q = "\<lambda>s. \<forall>b\<in>set (found_blocks s). enText b = Some [] \<and> block_index b = None"
  let ?st0 = "\<lparr> processed_motion_ids = [], found_blocks = [] \<rparr>"
  have q0: "?Q ?st0" by simp
  show ?thesis
  proof (cases "falsy_id (mm_rootMotionID main)")
    case False
    with assms q0 show ?thesis
      by (auto simp: walk_motions_def Let_def dest!: find_text_blocks_untranslated)
  next
    case True
    with assms have "visit_all (find_text_recursively depth (motion_map (mm_motionParameterList main))
          (motion_index_map (mm_motionParameterList main)))
          (dict_keys (map mo_id (mm_motionParameterList main))) ?st0 = Inr st"
      by (simp add: walk_motions_def Let_def)
    then show ?thesis using q0
      by (rule visit_all_preserves [where Q = ?Q, rotated]) (rule find_text_blocks_untranslated)
  qed
qed

lemma parse_uianimation_untranslated:
  assumes "parse_uianimation depth objects = Inr (Some doc)"
  shows "\<forall>b\<in>set (text_blocks doc). enText b = Some [] \<and> block_index b = None"
  using assms
  by (auto simp: parse_uianimation_def new_document_def
      split: option.splits if_splits sum.splits dest!: walk_motions_untranslated)

section \<open>The block indices of the walkers\<close>























section \<open>Extraction of a UI animation\<close>

lemma extract_uianimation_value:
  "extract_asset_data sim depth mgr UIAnimation name existing_tl =
     (case load_bundle mgr of
        None \<Rightarrow> Inl RuntimeError
      | Some env \<Rightarrow>
          (case parse_uianimation depth env of
             Inl e \<Rightarrow> Inl e
           | Inr None \<Rightarrow> Inl RuntimeError
           | Inr (Some extracted) \<Rightarrow>
               Inr ((if truthy_str (group_name_of mgr)
                     then extracted\<lparr>asset_name := Some name, group_name := group_name_of mgr\<rparr>
                     else extracted\<lparr>asset_name := Some name\<rparr>)
                    \<lparr>doc_type := Some UIAnimation,
                     bundle_hashes :=
                       (case fst (fst (get_asset_info (meta mgr) name)) of
                          None \<Rightarrow> bundle_hashes extracted
                        | Some hash_str \<Rightarrow>
                            if hash_str = [] then bundle_hashes extracted
                            else Some (platform_lower mgr, hash_str))\<rparr>)))"
proof (cases "load_bundle mgr")
  case None
  then show ?thesis by (simp add: extract_asset_data_def)
next
  case env: (Some env)
  show ?thesis
  proof (cases "parse_uianimation depth env")
    case (Inl e)
    with env show ?thesis by (simp add: extract_asset_data_def parser_func_def)
  next
    case (Inr r)
    show ?thesis
    proof (cases r)
      case None
      with env Inr show ?thesis by (simp add: extract_asset_data_def parser_func_def)
    next
      case (Some extracted)
      show ?thesis
      proof (cases "fst (fst (get_asset_info (meta mgr) name))")
        case None
        with env Inr Some show ?thesis
          by (simp add: extract_asset_data_def parser_func_def Let_def)
      next
        case h: (Some hash_str)
        with env Inr Some show ?thesis
          by (simp add: extract_asset_data_def parser_func_def Let_def)
      qed
    qed
  qed
qed

text \<open>
  C9. For the asset type \<open>uianimation\<close>, \<open>extract_asset_data\<close> does not call
  \<open>merge_translations\<close>: its result is the same whatever the workspace file holds, and
  every block of the returned document has an empty translated text.
\<close>

theorem extract_uianimation_never_merges:
  "extract_asset_data sim depth mgr UIAnimation name existing_tl =
     extract_asset_data sim depth mgr UIAnimation name None
   \<and> (\<forall>doc. extract_asset_data sim depth mgr UIAnimation name existing_tl = Inr doc \<longrightarrow>
         (\<forall>b\<in>set (text_blocks doc). enText b = Some []))"
proof
  show "extract_asset_data sim depth mgr UIAnimation name existing_tl =
     extract_asset_data sim depth mgr UIAnimation name None"
    by (simp only: extract_uianimation_value)
next
  show "\<forall>doc. extract_asset_data sim depth mgr UIAnimation name existing_tl = Inr doc \<longrightarrow>
         (\<forall>b\<in>set (text_blocks doc). enText b = Some [])"
  proof (intro allI impI)
    fix doc assume a: "extract_asset_data sim depth mgr UIAnimation name existing_tl = Inr doc"
    then obtain env where env: "load_bundle mgr = Some env"
      by (cases "load_bundle mgr") (simp_all add: extract_uianimation_value)
    with a obtain extracted where p: "parse_uianimation depth env = Inr (Some extracted)"
      by (cases "parse_uianimation depth env")
         (auto simp: extract_uianimation_value split: option.splits)
    from a env p have "text_blocks doc = text_blocks extracted"
      by (auto simp: extract_uianimation_value)
    with parse_uianimation_untranslated [OF p]
    show "\<forall>b\<in>set (text_blocks doc). enText b = Some []" by simp
  qed
qed

theorem extract_uianimation_never_merges_witness:
  "\<exists>doc. extract_asset_data ratio 2 ui_mgr UIAnimation [88] (Some (Json ui_old)) = Inr doc
      \<and> extract_asset_data ratio 2 ui_mgr UIAnimation [88] None = Inr doc
      \<and> map jpText (text_blocks doc) = map jpText (text_blocks ui_old)
      \<and> map enText (text_blocks ui_old) = [Some [65]]
      \<and> map enText (text_blocks doc) = [Some []]"
proof -
  note T = extract_uianimation_never_merges [of ratio 2 ui_mgr "[88]" "Some (Json ui_old)"]
  have "\<exists>doc. extract_asset_data ratio 2 ui_mgr UIAnimation [88] None = Inr doc
      \<and> map jpText (text_blocks doc) = [Some [12354]] \<and> length (text_blocks doc) = 1"
    by (simp add: extract_uianimation_value ui_mgr_def parse_uianimation_def self_loop_walk
        new_document_def) (simp add: self_loop_def truthy_str_def)
  then obtain doc where doc: "extract_asset_data ratio 2 ui_mgr UIAnimation [88] None = Inr doc"
      "map jpText (text_blocks doc) = [Some [12354]]" "length (text_blocks doc) = 1"
    by (elim exE conjE)
  from T doc(1) have m: "extract_asset_data ratio 2 ui_mgr UIAnimation [88] (Some (Json ui_old)) = Inr doc"
    by simp
  with T have "\<forall>b\<in>set (text_blocks doc). enText b = Some []" by blast
  with doc(3) have "map enText (text_blocks doc) = [Some []]"
    by (cases "text_blocks doc") auto
  with m doc show ?thesis
    by (auto simp: ui_old_def new_document_def)
qed

section \<open>The lookup in the asset index\<close>

lemma find_filter: "find P xs = (case filter P xs of [] \<Rightarrow> None | x # _ \<Rightarrow> Some x)"
  by (induction xs) simp_all

lemma fetchone_exact:
  "fetchone db (Exact name) =
     (if query_fails db (Exact name) then Inl DatabaseError
      else Inr (case exact_rows db name of [] \<Rightarrow> None | (n, row) # _ \<Rightarrow> Some row))"
  by (auto simp: fetchone_def exact_rows_def find_filter split: list.splits)

lemma fetchone_like:
  "fetchone db (Like (name @ [37])) =
     (if query_fails db (Like (name @ [37])) then Inl DatabaseError
      else Inr (case prefix_rows db name of [] \<Rightarrow> None | (n, row) # _ \<Rightarrow> Some row))"
  by (auto simp: fetchone_def prefix_rows_def find_filter split: list.splits)

text \<open>
  C5. \<open>get_asset_info\<close> asks for the exact name first. When that query gives a row, the
  hash and the key of its first row are returned (the key as \<open>0\<close> when it is null) and no
  other query is sent. Only when the exact query gives no row (none matches, or the
  query fails) the pattern made of the name and \<open>%\<close> is sent, and the first row of that
  result is returned. When neither gives a row, the result is \<open>(None, None)\<close>.
\<close>

theorem get_asset_info_exact_then_prefix:
  "(\<forall>n h e rest. \<not> query_fails db (Exact name) \<and> exact_rows db name = (n, h, e) # rest \<longrightarrow>
      n = name \<and>
      get_asset_info db name = ((h, Some (case e of None \<Rightarrow> 0 | Some k \<Rightarrow> k)), [Exact name]))
   \<and> (\<forall>n h e rest. (query_fails db (Exact name) \<or> exact_rows db name = []) \<and>
        \<not> query_fails db (Like (name @ [37])) \<and> prefix_rows db name = (n, h, e) # rest \<longrightarrow>
      like_op db (name @ [37]) n \<and>
      get_asset_info db name = ((h, Some (case e of None \<Rightarrow> 0 | Some k \<Rightarrow> k)),
                                [Exact name, Like (name @ [37])]))
   \<and> ((query_fails db (Exact name) \<or> exact_rows db name = []) \<and>
        (query_fails db (Like (name @ [37])) \<or> prefix_rows db name = []) \<longrightarrow>
      get_asset_info db name = ((None, None), [Exact name, Like (name @ [37])]))"
proof (intro conjI allI impI)
  fix n h e rest
  assume a: "\<not> query_fails db (Exact name) \<and> exact_rows db name = (n, h, e) # rest"
  then have "(n, h, e) \<in> set (exact_rows db name)" by simp
  then show "n = name" by (auto simp: exact_rows_def)
  from a show "get_asset_info db name =
      ((h, Some (case e of None \<Rightarrow> 0 | Some k \<Rightarrow> k)), [Exact name])"
    by (simp add: get_asset_info_def fetchone_exact row_info_def)
next
  fix n h e rest
  assume a: "(query_fails db (Exact name) \<or> exact_rows db name = []) \<and>
        \<not> query_fails db (Like (name @ [37])) \<and> prefix_rows db name = (n, h, e) # rest"
  then have "(n, h, e) \<in> set (prefix_rows db name)" by simp
  then show "like_op db (name @ [37]) n" by (auto simp: prefix_rows_def)
  from a show "get_asset_info db name =
      ((h, Some (case e of None \<Rightarrow> 0 | Some k \<Rightarrow> k)), [Exact name, Like (name @ [37])])"
    by (auto simp: get_asset_info_def fetchone_exact fetchone_like row_info_def)
next
  assume "(query_fails db (Exact name) \<or> exact_rows db name = []) \<and>
        (query_fails db (Like (name @ [37])) \<or> prefix_rows db name = [])"
  then show "get_asset_info db name = ((None, None), [Exact name, Like (name @ [37])])"
    by (auto simp: get_asset_info_def fetchone_exact fetchone_like)
qed

lemma index_db_rows:
  "exact_rows index_db [88] = [([88], Some [97, 98], Some 5)]"
  "exact_rows index_db [88, 115] = []"
  "prefix_rows index_db [88, 115] = [([88, 115, 117, 102], Some [99, 100], Some 7)]"
  "prefix_rows index_db [88] = [([88, 115, 117, 102], Some [99, 100], Some 7), ([88], Some [97, 98], Some 5)]"
  "exact_rows index_db [89] = []"
  "prefix_rows index_db [89] = []"
  by (simp_all add: exact_rows_def prefix_rows_def index_db_def prefix_like_def)

theorem get_asset_info_exact_then_prefix_witness:
  "get_asset_info index_db [88] = ((Some [97, 98], Some 5), [Exact [88]])
   \<and> get_asset_info index_db [88, 115] =
        ((Some [99, 100], Some 7), [Exact [88, 115], Like [88, 115, 37]])
   \<and> get_asset_info index_db [89] = ((None, None), [Exact [89], Like [89, 37]])"
proof -
  have nf: "\<And>q. \<not> query_fails index_db q" by (simp add: index_db_def)
  from get_asset_info_exact_then_prefix [of index_db "[88]"] nf index_db_rows
  have 1: "get_asset_info index_db [88] = ((Some [97, 98], Some 5), [Exact [88]])"
    by simp
  from get_asset_info_exact_then_prefix [of index_db "[88, 115]"] nf index_db_rows
  have 2: "get_asset_info index_db [88, 115] =
        ((Some [99, 100], Some 7), [Exact [88, 115], Like [88, 115, 37]])"
    by simp
  from get_asset_info_exact_then_prefix [of index_db "[89]"] nf index_db_rows
  have 3: "get_asset_info index_db [89] = ((None, None), [Exact [89], Like [89, 37]])"
    by simp
  from 1 2 3 show ?thesis by simp
qed

section \<open>Failed downloads\<close>

lemmas eval_download = download_asset_def download_failed_def url_of_def get_asset_path_def
  two_chunks_def disk_full_def stream_breaks_def no_files_def Let_def

text \<open>
  Whenever \<open>download_asset\<close> has sent its request and returns \<open>False\<close>, no file is left at
  the target path; with \<open>auto_download_assets\<close> off it returns \<open>False\<close> and the world is
  as it was.
\<close>

lemma download_asset_handled_failure_removes_file:
  assumes "url_of platform hash_str category = Some u"
    and "download_asset True env platform asset_dir w hash_str category = (Inr False, w')"
  shows "files w' (get_asset_path asset_dir hash_str) = None
         \<and> requests_made w' = requests_made w @ [u]"
  using assms
  by (auto simp: download_asset_def Let_def download_failed_def
      split: if_splits sum.splits option.splits)

lemma download_asset_disabled:
  "download_asset False env platform asset_dir w hash_str category = (Inr False, w)"
  by (simp add: download_asset_def)

text \<open>
  C8. The specification says that every failed download removes the partial file and
  returns failure. That holds for the exceptions of the \<open>requests\<close> library, the only ones
  the handler catches (second conjunct: the stream breaks, the file is gone, the result is
  \<open>False\<close>). When the disk fails at the second chunk, the \<open>OSError\<close> leaves the function and
  the file with the first chunk stays (first conjunct). With \<open>auto_download_assets\<close> off
  the function returns \<open>False\<close> and requests nothing (third conjunct).
\<close>

theorem download_asset_partial_file_remains:
  "download_asset True disk_full [87] [100] no_files [97, 98, 99] [98, 117, 110, 100, 108, 101] =
     (Inl OSError,
      \<lparr> files = [[[100], [97, 98], [97, 98, 99]] \<mapsto> [1, 2, 3]],
        requests_made = [BundleUrl [87] [97, 98] [97, 98, 99]] \<rparr>)
   \<and> download_asset True stream_breaks [87] [100] no_files [97, 98, 99] [98, 117, 110, 100, 108, 101] =
     (Inr False,
      \<lparr> files = Map.empty, requests_made = [BundleUrl [87] [97, 98] [97, 98, 99]] \<rparr>)
   \<and> download_asset False disk_full [87] [100] no_files [97, 98, 99] [98, 117, 110, 100, 108, 101] =
     (Inr False, no_files)"
  by (simp add: eval_download)

section \<open>The outcome of process\_asset\<close>



end
